theory Spec2Isabelle
  imports Complex_Main "HOL-Library.Sublist" "HOL-Library.AList" "HOL-Library.Multiset"
begin

section \<open>The MongoDB Atlas cluster resource\<close>

text \<open>
  A shallow embedding of \<^verbatim>\<open>mongodbatlas/resource_mongodbatlas_cluster.go\<close>: the five
  operations of the cluster resource (create, read, update, delete, import), the
  expand and flatten helpers between the configuration attributes and the API's
  cluster record, and the refresh function polled while the remote service works.

  Go values are modelled as follows. A string is a \<open>string\<close>; \<open>int\<close> and \<open>int64\<close> are
  \<open>int\<close> (the code only copies them between the two types, which have the same range
  on the platforms the provider is built for); \<open>float64\<close> is \<open>real\<close> (the code only
  copies and compares it; NaN is not modelled); a pointer to a scalar is an \<open>option\<close>
  with \<open>None\<close> for nil; an \<open>error\<close> is its message, and an optional error is a
  \<open>string option\<close>. A nil pointer dereference is an outcome of its own.
\<close>

subsection \<open>Functions of the Go libraries\<close>

text \<open>\<^verbatim>\<open>strings.Contains(s, substr)\<close>.\<close>

definition Contains :: "string \<Rightarrow> string \<Rightarrow> bool" where
  "Contains s substr = sublist substr s"

text \<open>
  \<^verbatim>\<open>strings.SplitN(s, sep, n)\<close> for a separator of one byte and \<open>n > 0\<close>: at most \<open>n\<close>
  pieces, cut at the leftmost separators, the last piece holding the unsplit rest.
  For \<open>n = 0\<close> the result is nil.
\<close>

fun SplitN :: "string \<Rightarrow> char \<Rightarrow> nat \<Rightarrow> string list" where
  "SplitN s sep 0 = []"
| "SplitN s sep (Suc 0) = [s]"
| "SplitN s sep (Suc (Suc n)) =
     (if sep \<in> set s
      then takeWhile (\<lambda>c. c \<noteq> sep) s # SplitN (tl (dropWhile (\<lambda>c. c \<noteq> sep) s)) sep (Suc n)
      else [s])"

text \<open>
  \<^verbatim>\<open>fmt.Sprintf\<close> (and so the message of \<^verbatim>\<open>fmt.Errorf\<close>) for formats whose only verb is
  \<^verbatim>\<open>%s\<close> and string or error operands: each verb is replaced by the next operand. A verb
  without an operand prints \<^verbatim>\<open>%!s(MISSING)\<close>. The source passes exactly as many operands
  as its formats have verbs; operands left over, which Go would report after the text,
  are not modelled.
\<close>

fun Sprintf :: "string \<Rightarrow> string list \<Rightarrow> string" where
  "Sprintf [] args = []"
| "Sprintf [c] args = [c]"
| "Sprintf (c # d # format) args =
     (if c = CHR ''%'' \<and> d = CHR ''s''
      then (case args of
              [] \<Rightarrow> ''%!s(MISSING)'' @ Sprintf format []
            | a # rest \<Rightarrow> a @ Sprintf format rest)
      else c # Sprintf (d # format) args)"

text \<open>\<^verbatim>\<open>strconv.FormatBool\<close>.\<close>

definition FormatBool :: "bool \<Rightarrow> string" where
  "FormatBool b = (if b then ''true'' else ''false'')"

text \<open>
  \<^verbatim>\<open>cast.ToBool\<close> on the value of a string map entry: a missing entry (nil) is false, a
  string is read by \<^verbatim>\<open>strconv.ParseBool\<close>, and what that rejects is false.
\<close>

definition ToBool :: "string option \<Rightarrow> bool" where
  "ToBool v =
     (case v of
        None \<Rightarrow> False
      | Some s \<Rightarrow> s \<in> set [''1'', ''t'', ''T'', ''TRUE'', ''true'', ''True''])"

text \<open>\<^verbatim>\<open>cast.ToString\<close> on the value of a string map entry: nil is the empty string.\<close>

definition ToString :: "string option \<Rightarrow> string" where
  "ToString v = (case v of None \<Rightarrow> [] | Some s \<Rightarrow> s)"

text \<open>\<^verbatim>\<open>cast.ToStringE\<close> on a string: the conversion has nothing to reject.\<close>

definition ToStringE :: "string \<Rightarrow> string \<times> string option" where
  "ToStringE s = (s, None)"

text \<open>Indexing a Go \<^verbatim>\<open>map[string]string\<close>: a missing key reads as the empty string.\<close>

definition index_map :: "(string \<rightharpoonup> string) \<Rightarrow> string \<Rightarrow> string" where
  "index_map m k = (case m k of None \<Rightarrow> [] | Some v \<Rightarrow> v)"

subsection \<open>The records of the Atlas API client\<close>

text \<open>
  The fields of \<^verbatim>\<open>matlas.Cluster\<close> and of the records it holds that the source reads or
  writes, with the types its uses give them. \<^verbatim>\<open>RegionsConfig\<close> of a replication spec is
  a Go map from region name to node counts; it is modelled as an association list with
  one entry per key, and ranging over it visits the entries in list order (Go leaves
  the order open, and no theorem below rests on it). A slice is an \<open>option\<close> of a list,
  \<open>None\<close> for the nil slice, which \<^verbatim>\<open>reflect.DeepEqual\<close> tells from an empty one.
\<close>

record AutoScaling =
  DiskGBEnabled :: "bool option"

record BiConnector =
  Enabled :: "bool option"
  ReadPreference :: string

record ProviderSettings =
  BackingProviderName :: string
  DiskIOPS :: "int option"
  DiskTypeName :: string
  EncryptEBSVolume :: "bool option"
  InstanceSizeName :: string
  ProviderName :: string
  RegionName :: string
  VolumeType :: string

record RegionsConfig =
  AnalyticsNodes :: "int option"
  ElectableNodes :: "int option"
  Priority :: "int option"
  ReadOnlyNodes :: "int option"

record ReplicationSpec =
  RS_ID :: string
  RS_NumShards :: "int option"
  ZoneName :: string
  RS_RegionsConfig :: "(string \<times> RegionsConfig) list"

record Cluster =
  AutoScaling :: AutoScaling
  BackupEnabled :: "bool option"
  BiConnector :: BiConnector
  ClusterType :: string
  DiskSizeGB :: "real option"
  EncryptionAtRestProvider :: string
  ID :: string
  GroupID :: string
  MongoDBVersion :: string
  MongoDBMajorVersion :: string
  MongoURI :: string
  MongoURIUpdated :: string
  MongoURIWithOptions :: string
  Name :: string
  NumShards :: "int option"
  Paused :: "bool option"
  ProviderBackupEnabled :: "bool option"
  ProviderSettings :: "ProviderSettings option"
  ReplicationFactor :: "int option"
  ReplicationSpecs :: "ReplicationSpec list option"
  SrvAddress :: string
  StateName :: string

text \<open>The zero values \<^verbatim>\<open>matlas.BiConnector{}\<close>, \<^verbatim>\<open>matlas.ProviderSettings{}\<close> and
  \<^verbatim>\<open>matlas.Cluster{}\<close>.\<close>

definition zeroBiConnector :: BiConnector where
  "zeroBiConnector = \<lparr>Enabled = None, ReadPreference = []\<rparr>"

definition zeroProviderSettings :: ProviderSettings where
  "zeroProviderSettings =
     \<lparr>BackingProviderName = [], DiskIOPS = None, DiskTypeName = [], EncryptEBSVolume = None,
      InstanceSizeName = [], ProviderName = [], RegionName = [], VolumeType = []\<rparr>"

definition zeroCluster :: Cluster where
  "zeroCluster =
     \<lparr>AutoScaling = \<lparr>DiskGBEnabled = None\<rparr>, BackupEnabled = None,
      BiConnector = zeroBiConnector, ClusterType = [], DiskSizeGB = None,
      EncryptionAtRestProvider = [], ID = [], GroupID = [], MongoDBVersion = [],
      MongoDBMajorVersion = [], MongoURI = [], MongoURIUpdated = [],
      MongoURIWithOptions = [], Name = [], NumShards = None, Paused = None,
      ProviderBackupEnabled = None, ProviderSettings = None, ReplicationFactor = None,
      ReplicationSpecs = None, SrvAddress = [], StateName = []\<rparr>"

text \<open>
  \<^verbatim>\<open>reflect.DeepEqual\<close> takes two values of any type. The source calls it on a
  \<^verbatim>\<open>ProviderSettings\<close> value, a \<^verbatim>\<open>Cluster\<close> value and a pointer to a \<^verbatim>\<open>Cluster\<close>, so these
  are the dynamic types of the model. Values of different types are never deeply
  equal; two structs are deeply equal when their fields are, and two pointers when
  they point to deeply equal values.
\<close>

datatype go_value =
  ProviderSettingsValue ProviderSettings
| ClusterValue Cluster
| ClusterPointer Cluster

fun DeepEqual :: "go_value \<Rightarrow> go_value \<Rightarrow> bool" where
  "DeepEqual (ProviderSettingsValue x) (ProviderSettingsValue y) = (x = y)"
| "DeepEqual (ClusterValue x) (ClusterValue y) = (x = y)"
| "DeepEqual (ClusterPointer x) (ClusterPointer y) = (x = y)"
| "DeepEqual x y = False"

subsection \<open>The configuration store\<close>

text \<open>
  \<^verbatim>\<open>schema.ResourceData\<close> is the host SDK's typed store. The attributes are the ones the
  schema of \<^verbatim>\<open>resourceMongoDBAtlasCluster\<close> declares, each with the Go type of its schema
  type. \<^verbatim>\<open>regions_config\<close> is a \<^verbatim>\<open>schema.Set\<close>; the source reads it through \<^verbatim>\<open>List()\<close>, and
  the model keeps that list.
\<close>

record RegionAttr =
  region_name :: string
  electable_nodes :: int
  priority :: int
  read_only_nodes :: int
  analytics_nodes :: int

record ReplicationSpecAttr =
  spec_id :: string
  spec_num_shards :: int
  regions_config :: "RegionAttr list"
  zone_name :: string

record Attrs =
  project_id :: string
  cluster_id :: string
  auto_scaling_disk_gb_enabled :: bool
  backup_enabled :: bool
  bi_connector :: "string \<rightharpoonup> string"
  cluster_type :: string
  disk_size_gb :: real
  encryption_at_rest_provider :: string
  name :: string
  mongo_db_major_version :: string
  num_shards :: int
  provider_backup_enabled :: bool
  provider_instance_size_name :: string
  provider_name :: string
  backing_provider_name :: string
  provider_disk_iops :: int
  provider_disk_type_name :: string
  provider_encrypt_ebs_volume :: bool
  provider_region_name :: string
  provider_volume_type :: string
  replication_factor :: int
  replication_specs :: "ReplicationSpecAttr list"
  mongo_db_version :: string
  mongo_uri :: string
  mongo_uri_updated :: string
  mongo_uri_with_options :: string
  paused :: bool
  srv_address :: string
  state_name :: string

text \<open>
  The store of one resource instance: its identifier (\<^verbatim>\<open>d.Id()\<close>, \<^verbatim>\<open>d.SetId\<close>), the
  attributes of the last-known state (\<open>prior\<close>), the attributes the host asks for
  (\<open>planned\<close>: the state with the configuration's changes), and the attributes
  \<^verbatim>\<open>d.Get\<close> returns (\<open>attrs\<close>: the planned ones, overwritten by every \<^verbatim>\<open>d.Set\<close>).
  An attribute the configuration leaves out holds the default its schema entry gives,
  and the zero value of its type when the entry gives none.
  \<^verbatim>\<open>d.Timeout(schema.TimeoutCreate)\<close> is a field, in seconds.
\<close>

record ResourceData =
  Id :: string
  prior :: Attrs
  planned :: Attrs
  attrs :: Attrs
  TimeoutCreate :: nat

text \<open>
  \<^verbatim>\<open>d.GetOk(key)\<close> answers whether the attribute holds a value other than the zero value
  of its type; these are the four keys the source asks about, and \<^verbatim>\<open>bi_connector\<close>.
\<close>

definition GetOk_replication_specs :: "ResourceData \<Rightarrow> bool" where
  "GetOk_replication_specs d = (replication_specs (attrs d) \<noteq> [])"

definition GetOk_cluster_type :: "ResourceData \<Rightarrow> bool" where
  "GetOk_cluster_type d = (cluster_type (attrs d) \<noteq> [])"

definition GetOk_num_shards :: "ResourceData \<Rightarrow> bool" where
  "GetOk_num_shards d = (num_shards (attrs d) \<noteq> 0)"

definition GetOk_replication_factor :: "ResourceData \<Rightarrow> bool" where
  "GetOk_replication_factor d = (replication_factor (attrs d) \<noteq> 0)"

definition GetOk_bi_connector :: "ResourceData \<Rightarrow> bool" where
  "GetOk_bi_connector d = (bi_connector (attrs d) \<noteq> Map.empty)"

text \<open>
  \<^verbatim>\<open>d.HasChange(key)\<close> compares the attribute of the last-known state with the one the
  host asks for by \<^verbatim>\<open>reflect.DeepEqual\<close>. For a scalar attribute and for a map of strings
  that is: the two values differ.
\<close>

definition HasChange :: "(Attrs \<Rightarrow> 'a) \<Rightarrow> ResourceData \<Rightarrow> bool" where
  "HasChange key d = (key (prior d) \<noteq> key (planned d))"

text \<open>
  \<^verbatim>\<open>d.HasChange("replication_specs")\<close> is another matter. Every block of that list holds
  its \<^verbatim>\<open>regions_config\<close> as a \<^verbatim>\<open>*schema.Set\<close>, a record with a function field (the set's
  hash function), and \<^verbatim>\<open>reflect.DeepEqual\<close> never finds two functions equal unless both
  are nil. The old and the new list are read separately, so two lists that hold a
  block are never deeply equal, whether anything in them differs or not; only two
  empty lists are. So the attribute has a change unless both lists are empty.
\<close>

definition HasChange_replication_specs :: "ResourceData \<Rightarrow> bool" where
  "HasChange_replication_specs d =
     (replication_specs (prior d) \<noteq> [] \<or> replication_specs (planned d) \<noteq> [])"

text \<open>
  \<^verbatim>\<open>d.Set(key, value)\<close> with a pointer for the value stores what it points to, and the
  zero value of the attribute's type for a nil pointer.
\<close>

definition deref_bool :: "bool option \<Rightarrow> bool" where
  "deref_bool p = (case p of None \<Rightarrow> False | Some b \<Rightarrow> b)"

definition deref_int :: "int option \<Rightarrow> int" where
  "deref_int p = (case p of None \<Rightarrow> 0 | Some i \<Rightarrow> i)"

definition deref_real :: "real option \<Rightarrow> real" where
  "deref_real p = (case p of None \<Rightarrow> 0 | Some x \<Rightarrow> x)"

text \<open>The store in which every attribute holds the zero value of its type.\<close>

definition zeroAttrs :: Attrs where
  "zeroAttrs =
     \<lparr>project_id = [], cluster_id = [], auto_scaling_disk_gb_enabled = False,
      backup_enabled = False, bi_connector = Map.empty, cluster_type = [], disk_size_gb = 0,
      encryption_at_rest_provider = [], name = [], mongo_db_major_version = [],
      num_shards = 0, provider_backup_enabled = False, provider_instance_size_name = [],
      provider_name = [], backing_provider_name = [], provider_disk_iops = 0,
      provider_disk_type_name = [], provider_encrypt_ebs_volume = False,
      provider_region_name = [], provider_volume_type = [], replication_factor = 0,
      replication_specs = [], mongo_db_version = [], mongo_uri = [], mongo_uri_updated = [],
      mongo_uri_with_options = [], paused = False, srv_address = [], state_name = []\<rparr>"

subsection \<open>The configuration and the schema's defaults\<close>

text \<open>
  What the user writes: the four required attributes, and each optional attribute
  given or left out (\<open>None\<close>). The blocks of \<^verbatim>\<open>replication_specs\<close> are taken with their own
  defaults filled in. For a resource to be created the host stores, for each
  attribute, the value the configuration gives; for an attribute it leaves out, the
  \<^verbatim>\<open>Default\<close> of the attribute's schema entry where there is one
  (\<^verbatim>\<open>auto_scaling_disk_gb_enabled\<close>: true, \<^verbatim>\<open>backup_enabled\<close>: false, \<^verbatim>\<open>num_shards\<close>: 1,
  \<^verbatim>\<open>provider_backup_enabled\<close>: false), and otherwise the zero value of its type. The
  attributes the schema marks as computed only are not part of a configuration.
\<close>

record Config =
  cfg_project_id :: string
  cfg_name :: string
  cfg_provider_instance_size_name :: string
  cfg_provider_name :: string
  cfg_auto_scaling_disk_gb_enabled :: "bool option"
  cfg_backup_enabled :: "bool option"
  cfg_bi_connector :: "(string \<rightharpoonup> string) option"
  cfg_cluster_type :: "string option"
  cfg_disk_size_gb :: "real option"
  cfg_encryption_at_rest_provider :: "string option"
  cfg_mongo_db_major_version :: "string option"
  cfg_num_shards :: "int option"
  cfg_provider_backup_enabled :: "bool option"
  cfg_backing_provider_name :: "string option"
  cfg_provider_disk_iops :: "int option"
  cfg_provider_disk_type_name :: "string option"
  cfg_provider_encrypt_ebs_volume :: "bool option"
  cfg_provider_region_name :: "string option"
  cfg_provider_volume_type :: "string option"
  cfg_replication_factor :: "int option"
  cfg_replication_specs :: "ReplicationSpecAttr list option"

definition orDefault :: "'a option \<Rightarrow> 'a \<Rightarrow> 'a" where
  "orDefault v dflt = (case v of None \<Rightarrow> dflt | Some x \<Rightarrow> x)"

definition plannedAttrs :: "Config \<Rightarrow> Attrs" where
  "plannedAttrs cfg =
     \<lparr>project_id = cfg_project_id cfg,
      cluster_id = [],
      auto_scaling_disk_gb_enabled = orDefault (cfg_auto_scaling_disk_gb_enabled cfg) True,
      backup_enabled = orDefault (cfg_backup_enabled cfg) False,
      bi_connector = orDefault (cfg_bi_connector cfg) Map.empty,
      cluster_type = orDefault (cfg_cluster_type cfg) [],
      disk_size_gb = orDefault (cfg_disk_size_gb cfg) 0,
      encryption_at_rest_provider = orDefault (cfg_encryption_at_rest_provider cfg) [],
      name = cfg_name cfg,
      mongo_db_major_version = orDefault (cfg_mongo_db_major_version cfg) [],
      num_shards = orDefault (cfg_num_shards cfg) 1,
      provider_backup_enabled = orDefault (cfg_provider_backup_enabled cfg) False,
      provider_instance_size_name = cfg_provider_instance_size_name cfg,
      provider_name = cfg_provider_name cfg,
      backing_provider_name = orDefault (cfg_backing_provider_name cfg) [],
      provider_disk_iops = orDefault (cfg_provider_disk_iops cfg) 0,
      provider_disk_type_name = orDefault (cfg_provider_disk_type_name cfg) [],
      provider_encrypt_ebs_volume = orDefault (cfg_provider_encrypt_ebs_volume cfg) False,
      provider_region_name = orDefault (cfg_provider_region_name cfg) [],
      provider_volume_type = orDefault (cfg_provider_volume_type cfg) [],
      replication_factor = orDefault (cfg_replication_factor cfg) 0,
      replication_specs = orDefault (cfg_replication_specs cfg) [],
      mongo_db_version = [], mongo_uri = [], mongo_uri_updated = [],
      mongo_uri_with_options = [], paused = False, srv_address = [], state_name = []\<rparr>"

text \<open>The store create is given for a configuration: no identifier, no earlier state,
  and the create timeout in seconds.\<close>

definition newResourceData :: "Config \<Rightarrow> nat \<Rightarrow> ResourceData" where
  "newResourceData cfg timeout =
     \<lparr>Id = [], prior = zeroAttrs, planned = plannedAttrs cfg, attrs = plannedAttrs cfg,
      TimeoutCreate = timeout\<rparr>"

subsection \<open>The poll loop's results\<close>

text \<open>
  What a \<^verbatim>\<open>resource.StateRefreshFunc\<close> returns: a result of any type (the source returns
  nil, the number 42 or the cluster read), a state label and an error. A refresh that
  dereferences a nil pointer does not return.
\<close>

datatype refresh_value = FortyTwo | ClusterRead Cluster

datatype refresh_result =
  Refreshed "refresh_value option" string "string option"
| RefreshPanic

text \<open>
  The errors of \<^verbatim>\<open>WaitForState\<close>: the refresh function's own error, the resource not
  found for too many refreshes in a row (with their number), a state that is neither
  pending nor a target (with the state and the targets), and the timeout (with the last
  state seen and the targets).
\<close>

datatype wait_error =
  RefreshError string
| NotFoundError nat
| UnexpectedStateError string "string list"
| TimeoutError string "string list"

datatype wait_result =
  WaitDone "refresh_value option"
| WaitFailed wait_error
| WaitPanic

subsection \<open>What the operations are given\<close>

text \<open>
  The operations use four things whose bodies are outside the source file; they are
  parameters of the model. \<^verbatim>\<open>encodeStateID\<close> and \<^verbatim>\<open>decodeStateID\<close> are the provider's codec
  between a map of three entries and the identifier string. \<open>ErrorText\<close> is the SDK's
  \<^verbatim>\<open>Error()\<close> method on the errors of \<^verbatim>\<open>WaitForState\<close>. \<open>reads_within t\<close> is the number of
  refreshes that complete before a timeout of \<open>t\<close> seconds fires: the model does not
  measure time, so the delay before the first refresh and the pause between two
  refreshes are fields of the loop's configuration that nothing reads.
\<close>

record Env =
  encodeStateID :: "(string \<rightharpoonup> string) \<Rightarrow> string"
  decodeStateID :: "string \<Rightarrow> (string \<rightharpoonup> string)"
  ErrorText :: "wait_error \<Rightarrow> string"
  reads_within :: "nat \<Rightarrow> nat"

subsection \<open>The remote cluster API\<close>

text \<open>
  The remote service is scripted: the client holds the reply to each kind of call (for
  \<^verbatim>\<open>Get\<close>, the reply to the first, the second, ... call), and every call the provider
  issues is appended to \<open>calls\<close>. \<^verbatim>\<open>Clusters.Get\<close> returns a cluster, the HTTP response and
  an error, each of which may be nil; \<^verbatim>\<open>Clusters.Create\<close> returns an error or the cluster
  created; of \<^verbatim>\<open>Update\<close> and \<^verbatim>\<open>Delete\<close> the source reads the error only.
\<close>

record Response =
  StatusCode :: nat

datatype api_call =
  CreateCall string Cluster
| GetCall string string
| UpdateCall string string Cluster
| DeleteCall string string

type_synonym get_reply = "Cluster option \<times> Response option \<times> string option"

record Client =
  calls :: "api_call list"
  gets :: nat
  create_reply :: "string + Cluster"
  get_replies :: "nat \<Rightarrow> get_reply"
  update_reply :: "string option"
  delete_reply :: "string option"

definition Clusters_Create :: "string \<Rightarrow> Cluster \<Rightarrow> Client \<Rightarrow> (string + Cluster) \<times> Client" where
  "Clusters_Create projectID request conn =
     (create_reply conn, conn\<lparr>calls := calls conn @ [CreateCall projectID request]\<rparr>)"

definition Clusters_Get :: "string \<Rightarrow> string \<Rightarrow> Client \<Rightarrow> get_reply \<times> Client" where
  "Clusters_Get projectID clusterName conn =
     (get_replies conn (gets conn),
      conn\<lparr>calls := calls conn @ [GetCall projectID clusterName], gets := Suc (gets conn)\<rparr>)"

definition Clusters_Update :: "string \<Rightarrow> string \<Rightarrow> Cluster \<Rightarrow> Client \<Rightarrow> string option \<times> Client" where
  "Clusters_Update projectID clusterName request conn =
     (update_reply conn, conn\<lparr>calls := calls conn @ [UpdateCall projectID clusterName request]\<rparr>)"

definition Clusters_Delete :: "string \<Rightarrow> string \<Rightarrow> Client \<Rightarrow> string option \<times> Client" where
  "Clusters_Delete projectID clusterName conn =
     (delete_reply conn, conn\<lparr>calls := calls conn @ [DeleteCall projectID clusterName]\<rparr>)"

subsection \<open>Expanding the configuration, flattening the API's records\<close>

definition expandBiConnector :: "ResourceData \<Rightarrow> BiConnector \<times> string option" where
  "expandBiConnector d =
     (if GetOk_bi_connector d
      then (let biConnMap = bi_connector (attrs d);
                enabled = ToBool (biConnMap ''enabled'')
            in (\<lparr>Enabled = Some enabled,
                 ReadPreference = ToString (biConnMap ''read_preference'')\<rparr>, None))
      else (zeroBiConnector, None))"

definition flattenBiConnector :: "BiConnector \<Rightarrow> (string \<rightharpoonup> string)" where
  "flattenBiConnector biConnector =
     (let biConnectorMap = Map.empty;
          biConnectorMap =
            (case Enabled biConnector of
               Some enabled \<Rightarrow> biConnectorMap(''enabled'' \<mapsto> FormatBool enabled)
             | None \<Rightarrow> biConnectorMap)
      in if ReadPreference biConnector \<noteq> []
         then biConnectorMap(''read_preference'' \<mapsto> ReadPreference biConnector)
         else biConnectorMap)"

definition expandProviderSetting :: "ResourceData \<Rightarrow> ProviderSettings" where
  "expandProviderSetting d =
     (let diskIOPS = provider_disk_iops (attrs d);
          encryptEBSVolume = provider_encrypt_ebs_volume (attrs d)
      in \<lparr>BackingProviderName = backing_provider_name (attrs d),
          DiskIOPS = Some diskIOPS,
          DiskTypeName = provider_disk_type_name (attrs d),
          EncryptEBSVolume = Some encryptEBSVolume,
          InstanceSizeName = provider_instance_size_name (attrs d),
          ProviderName = provider_name (attrs d),
          RegionName = provider_region_name (attrs d),
          VolumeType = provider_volume_type (attrs d)\<rparr>)"

definition flattenProviderSettings :: "ResourceData \<Rightarrow> ProviderSettings \<Rightarrow> ResourceData" where
  "flattenProviderSettings d settings =
     d\<lparr>attrs := (attrs d)
         \<lparr>backing_provider_name := BackingProviderName settings,
          provider_disk_iops := deref_int (DiskIOPS settings),
          provider_disk_type_name := DiskTypeName settings,
          provider_encrypt_ebs_volume := deref_bool (EncryptEBSVolume settings),
          provider_instance_size_name := InstanceSizeName settings,
          provider_name := ProviderName settings,
          provider_region_name := RegionName settings,
          provider_volume_type := VolumeType settings\<rparr>\<rparr>"

text \<open>
  \<^verbatim>\<open>expandRegionsConfig\<close>: the loop over the regions, with the map built so far. Storing
  under a key the map already has replaces the entry.
\<close>

fun expandRegionsConfig_loop ::
  "RegionAttr list \<Rightarrow> (string \<times> RegionsConfig) list
     \<Rightarrow> (string \<times> RegionsConfig) list \<times> string option" where
  "expandRegionsConfig_loop [] regionsConfig = (regionsConfig, None)"
| "expandRegionsConfig_loop (region # regions) regionsConfig =
     (case ToStringE (region_name region) of
        (r, Some err) \<Rightarrow> (regionsConfig, Some err)
      | (r, None) \<Rightarrow>
          expandRegionsConfig_loop regions
            (AList.update r
               \<lparr>AnalyticsNodes = Some (analytics_nodes region),
                ElectableNodes = Some (electable_nodes region),
                Priority = Some (priority region),
                ReadOnlyNodes = Some (read_only_nodes region)\<rparr>
               regionsConfig))"

definition expandRegionsConfig ::
  "RegionAttr list \<Rightarrow> (string \<times> RegionsConfig) list \<times> string option" where
  "expandRegionsConfig regions = expandRegionsConfig_loop regions []"

fun expandReplicationSpecs_loop ::
  "ReplicationSpecAttr list \<Rightarrow> ReplicationSpec list \<Rightarrow> ReplicationSpec list \<times> string option" where
  "expandReplicationSpecs_loop [] rSpecs = (rSpecs, None)"
| "expandReplicationSpecs_loop (spec # specs) rSpecs =
     (case expandRegionsConfig (regions_config spec) of
        (regionsConfig, Some err) \<Rightarrow> (rSpecs, Some err)
      | (regionsConfig, None) \<Rightarrow>
          expandReplicationSpecs_loop specs
            (rSpecs @
              [\<lparr>RS_ID = spec_id spec,
                RS_NumShards = Some (spec_num_shards spec),
                ZoneName = zone_name spec,
                RS_RegionsConfig = regionsConfig\<rparr>]))"

definition expandReplicationSpecs :: "ResourceData \<Rightarrow> ReplicationSpec list \<times> string option" where
  "expandReplicationSpecs d =
     (if GetOk_replication_specs d
      then expandReplicationSpecs_loop (replication_specs (attrs d)) []
      else ([], None))"

definition flattenRegionsConfig :: "(string \<times> RegionsConfig) list \<Rightarrow> RegionAttr list" where
  "flattenRegionsConfig regionsConfig =
     map (\<lambda>(regionName, regionConfig).
            \<lparr>region_name = regionName,
             electable_nodes = deref_int (ElectableNodes regionConfig),
             priority = deref_int (Priority regionConfig),
             read_only_nodes = deref_int (ReadOnlyNodes regionConfig),
             analytics_nodes = deref_int (AnalyticsNodes regionConfig)\<rparr>)
         regionsConfig"

definition flattenReplicationSpecs :: "ReplicationSpec list option \<Rightarrow> ReplicationSpecAttr list" where
  "flattenReplicationSpecs rSpecs =
     map (\<lambda>rSpec.
            \<lparr>spec_id = RS_ID rSpec,
             spec_num_shards = deref_int (RS_NumShards rSpec),
             regions_config = flattenRegionsConfig (RS_RegionsConfig rSpec),
             zone_name = ZoneName rSpec\<rparr>)
         (case rSpecs of None \<Rightarrow> [] | Some l \<Rightarrow> l)"

subsection \<open>The refresh function\<close>

text \<open>
  \<^verbatim>\<open>resourceClusterRefreshFunc(name, projectID, client)\<close> returns a closure; here the
  closure is the partial application to the first two arguments. The branches are the
  source's, in its order; \<^verbatim>\<open>resp.StatusCode\<close> with a nil response and \<^verbatim>\<open>c.StateName\<close> with
  a nil cluster are the two nil dereferences.
\<close>

definition resourceClusterRefreshFunc ::
  "string \<Rightarrow> string \<Rightarrow> Client \<Rightarrow> refresh_result \<times> Client" where
  "resourceClusterRefreshFunc clusterName projectID client =
     (case Clusters_Get projectID clusterName client of
        ((c, resp, err), client') \<Rightarrow>
          (case err of
             Some e \<Rightarrow>
               if Contains e ''reset by peer'' then (Refreshed None ''REPEATING'' None, client')
               else if c = None \<and> resp = None then (Refreshed None [] (Some e), client')
               else (case resp of
                       None \<Rightarrow> (RefreshPanic, client')
                     | Some r \<Rightarrow>
                         if StatusCode r = 404
                         then (Refreshed (Some FortyTwo) ''DELETED'' None, client')
                         else (Refreshed None [] (Some e), client'))
           | None \<Rightarrow>
               (case c of
                  None \<Rightarrow> (RefreshPanic, client')
                | Some cluster \<Rightarrow>
                    (Refreshed (Some (ClusterRead cluster)) (StateName cluster) None, client'))))"

subsection \<open>The poll loop\<close>

text \<open>
  \<^verbatim>\<open>resource.StateChangeConf\<close> and its method \<^verbatim>\<open>WaitForState\<close> belong to the host SDK
  (\<^verbatim>\<open>helper/resource\<close>); the source fills the record in and calls the method. The loop
  below is the SDK's, with time left out (see \<open>reads_within\<close>). Each round calls
  \<open>Refresh\<close> and then, in this order:
  \<^item> an error of the refresh ends the loop with that error;
  \<^item> a nil result with no target state configured is the awaited absence;
  \<^item> a nil result otherwise counts as "not found": the loop goes on, unless this is
    more than \<open>NotFoundChecks\<close> such rounds in a row (20 when the field is left 0, as
    the source leaves it), which ends the loop with a \<open>NotFoundError\<close>; the state label
    of such a round is not compared with \<open>Pending\<close> or \<open>Target\<close>;
  \<^item> a result whose state is one of \<open>Target\<close> ends the loop with success;
  \<^item> a result whose state is one of \<open>Pending\<close> lets the loop go on;
  \<^item> any other state ends the loop with an \<open>UnexpectedStateError\<close> when \<open>Pending\<close> is not
    empty.
  When the timeout fires the loop ends with a \<open>TimeoutError\<close> that carries the state of
  the last refresh. The text of the \<open>NotFoundError\<close> after the default number of checks
  is the SDK's \<^verbatim>\<open>couldn't find resource (21 retries)\<close>. Section 4.2 of the
  specification describes the same transitions, without the bound on rounds that bring
  no result.
\<close>

record StateChangeConf =
  Pending :: "string list"
  Target :: "string list"
  Refresh :: "Client \<Rightarrow> refresh_result \<times> Client"
  Timeout :: nat
  MinTimeout :: nat
  Delay :: nat
  NotFoundChecks :: nat

definition Second :: nat where "Second = 1"
definition Minute :: nat where "Minute = 60 * Second"
definition Hour :: nat where "Hour = 60 * Minute"

definition notFoundChecks :: "StateChangeConf \<Rightarrow> nat" where
  "notFoundChecks conf = (if NotFoundChecks conf = 0 then 20 else NotFoundChecks conf)"

fun waitLoop ::
  "StateChangeConf \<Rightarrow> nat \<Rightarrow> nat \<Rightarrow> string \<Rightarrow> Client \<Rightarrow> wait_result \<times> Client" where
  "waitLoop conf 0 notfoundTick lastState client =
     (WaitFailed (TimeoutError lastState (Target conf)), client)"
| "waitLoop conf (Suc reads) notfoundTick lastState client =
     (case Refresh conf client of
        (RefreshPanic, client') \<Rightarrow> (WaitPanic, client')
      | (Refreshed res currentState (Some err), client') \<Rightarrow> (WaitFailed (RefreshError err), client')
      | (Refreshed None currentState None, client') \<Rightarrow>
          if Target conf = [] then (WaitDone None, client')
          else if Suc notfoundTick > notFoundChecks conf
          then (WaitFailed (NotFoundError (Suc notfoundTick)), client')
          else waitLoop conf reads (Suc notfoundTick) currentState client'
      | (Refreshed (Some v) currentState None, client') \<Rightarrow>
          if currentState \<in> set (Target conf) then (WaitDone (Some v), client')
          else if currentState \<in> set (Pending conf) then waitLoop conf reads 0 currentState client'
          else if Pending conf \<noteq> []
          then (WaitFailed (UnexpectedStateError currentState (Target conf)), client')
          else waitLoop conf reads 0 currentState client')"

definition WaitForState :: "Env \<Rightarrow> StateChangeConf \<Rightarrow> Client \<Rightarrow> wait_result \<times> Client" where
  "WaitForState env conf client = waitLoop conf (reads_within env (Timeout conf)) 0 [] client"

subsection \<open>The operations\<close>

text \<open>
  An operation returns nil or an error, or stops at a nil dereference; with it the
  model returns the store and the client as the operation leaves them.
\<close>

datatype outcome = Ok | Failed string | Panicked

definition errorCreate :: string where
  "errorCreate = ''error creating MongoDB Cluster: %s''"

definition errorRead :: string where
  "errorRead = ''error reading MongoDB Cluster (%s): %s''"

definition errorDelete :: string where
  "errorDelete = ''error deleting MongoDB Cluster (%s): %s''"

definition errorUpdate :: string where
  "errorUpdate = ''error updating MongoDB Cluster (%s): %s''"

definition SetId :: "string \<Rightarrow> ResourceData \<Rightarrow> ResourceData" where
  "SetId v d = d\<lparr>Id := v\<rparr>"

text \<open>The map literal the source passes to \<^verbatim>\<open>encodeStateID\<close>.\<close>

definition stateIDMap :: "string \<Rightarrow> string \<Rightarrow> string \<Rightarrow> (string \<rightharpoonup> string)" where
  "stateIDMap clusterID projectID clusterName =
     [''cluster_id'' \<mapsto> clusterID, ''project_id'' \<mapsto> projectID, ''cluster_name'' \<mapsto> clusterName]"

text \<open>
  \<^verbatim>\<open>resourceMongoDBAtlasClusterRead\<close>. The source checks the error of every \<^verbatim>\<open>d.Set\<close>; on
  the typed store a \<^verbatim>\<open>Set\<close> cannot fail, so the writes are record updates, in the
  source's order.
\<close>

definition setClusterAttrs :: "Cluster \<Rightarrow> ResourceData \<Rightarrow> ResourceData" where
  "setClusterAttrs cluster d =
     (let d = d\<lparr>attrs := (attrs d)
                 \<lparr>cluster_id := ID cluster,
                  auto_scaling_disk_gb_enabled := deref_bool (DiskGBEnabled (AutoScaling cluster)),
                  backup_enabled := deref_bool (BackupEnabled cluster),
                  provider_backup_enabled := deref_bool (ProviderBackupEnabled cluster),
                  cluster_type := ClusterType cluster,
                  disk_size_gb := deref_real (DiskSizeGB cluster),
                  encryption_at_rest_provider := EncryptionAtRestProvider cluster,
                  mongo_db_major_version := MongoDBVersion cluster\<rparr>\<rparr>;
          d = (case NumShards cluster of
                 Some n \<Rightarrow> d\<lparr>attrs := (attrs d)\<lparr>num_shards := n\<rparr>\<rparr>
               | None \<Rightarrow> d);
          d = d\<lparr>attrs := (attrs d)
                 \<lparr>mongo_db_version := MongoDBVersion cluster,
                  mongo_uri := MongoURI cluster,
                  mongo_uri_updated := MongoURIUpdated cluster,
                  mongo_uri_with_options := MongoURIWithOptions cluster,
                  paused := deref_bool (Paused cluster),
                  srv_address := SrvAddress cluster,
                  state_name := StateName cluster,
                  bi_connector := flattenBiConnector (BiConnector cluster)\<rparr>\<rparr>;
          d = (case ProviderSettings cluster of
                 Some settings \<Rightarrow> flattenProviderSettings d settings
               | None \<Rightarrow> d)
      in d\<lparr>attrs := (attrs d)
             \<lparr>replication_specs := flattenReplicationSpecs (ReplicationSpecs cluster),
              replication_factor := deref_int (ReplicationFactor cluster)\<rparr>\<rparr>)"

definition resourceMongoDBAtlasClusterRead ::
  "Env \<Rightarrow> ResourceData \<Rightarrow> Client \<Rightarrow> outcome \<times> ResourceData \<times> Client" where
  "resourceMongoDBAtlasClusterRead env d conn =
     (let ids = decodeStateID env (Id d);
          projectID = index_map ids ''project_id'';
          clusterName = index_map ids ''cluster_name''
      in case Clusters_Get projectID clusterName conn of
           ((cluster, resp, err), conn') \<Rightarrow>
             (case err of
                Some e \<Rightarrow>
                  if resp \<noteq> None \<and> map_option StatusCode resp = Some 404
                  then (Ok, d, conn')
                  else (Failed (Sprintf errorRead [clusterName, e]), d, conn')
              | None \<Rightarrow>
                  (case cluster of
                     None \<Rightarrow> (Panicked, d, conn')
                   | Some c \<Rightarrow> (Ok, setClusterAttrs c d, conn'))))"

text \<open>\<^verbatim>\<open>resourceMongoDBAtlasClusterCreate\<close>: the request it builds, the loop it configures,
  and the operation.\<close>

definition clusterRequest ::
  "ResourceData \<Rightarrow> BiConnector \<Rightarrow> ProviderSettings \<Rightarrow> ReplicationSpec list \<Rightarrow> Cluster" where
  "clusterRequest d biConnector providerSettings replicationSpecs =
     (let autoScaling = \<lparr>DiskGBEnabled = Some (auto_scaling_disk_gb_enabled (attrs d))\<rparr>;
          request = zeroCluster
            \<lparr>Name := name (attrs d),
             EncryptionAtRestProvider := encryption_at_rest_provider (attrs d),
             MongoDBMajorVersion := mongo_db_major_version (attrs d),
             ClusterType := cluster_type (attrs d),
             BackupEnabled := Some (backup_enabled (attrs d)),
             DiskSizeGB := Some (disk_size_gb (attrs d)),
             ProviderBackupEnabled := Some (provider_backup_enabled (attrs d)),
             AutoScaling := autoScaling,
             BiConnector := biConnector,
             ProviderSettings := Some providerSettings,
             ReplicationSpecs := Some replicationSpecs\<rparr>;
          request = (if GetOk_replication_factor d
                     then request\<lparr>ReplicationFactor := Some (replication_factor (attrs d))\<rparr>
                     else request)
      in if GetOk_num_shards d
         then request\<lparr>NumShards := Some (num_shards (attrs d))\<rparr>
         else request)"

definition createStateConf :: "ResourceData \<Rightarrow> string \<Rightarrow> StateChangeConf" where
  "createStateConf d projectID =
     \<lparr>Pending = [''CREATING'', ''UPDATING'', ''REPAIRING'', ''REPEATING''],
      Target = [''IDLE''],
      Refresh = resourceClusterRefreshFunc (name (attrs d)) projectID,
      Timeout = TimeoutCreate d,
      MinTimeout = 30 * Second,
      Delay = 1 * Minute,
      NotFoundChecks = 0\<rparr>"

definition resourceMongoDBAtlasClusterCreate ::
  "Env \<Rightarrow> ResourceData \<Rightarrow> Client \<Rightarrow> outcome \<times> ResourceData \<times> Client" where
  "resourceMongoDBAtlasClusterCreate env d conn =
     (let projectID = project_id (attrs d)
      in if GetOk_replication_specs d \<and> \<not> GetOk_cluster_type d
         then (Failed ''`cluster_type` should be set when `replication_specs` is set'', d, conn)
         else if GetOk_replication_specs d \<and> \<not> GetOk_num_shards d
         then (Failed ''`num_shards` should be set when `replication_specs` is set'', d, conn)
         else
           (case expandBiConnector d of
              (biConnector, Some err) \<Rightarrow> (Failed (Sprintf errorCreate [err]), d, conn)
            | (biConnector, None) \<Rightarrow>
                (let providerSettings = expandProviderSetting d
                 in case expandReplicationSpecs d of
                      (replicationSpecs, Some err) \<Rightarrow> (Failed (Sprintf errorCreate [err]), d, conn)
                    | (replicationSpecs, None) \<Rightarrow>
                        (case Clusters_Create projectID
                                (clusterRequest d biConnector providerSettings replicationSpecs) conn of
                           (Inl err, conn1) \<Rightarrow> (Failed (Sprintf errorCreate [err]), d, conn1)
                         | (Inr cluster, conn1) \<Rightarrow>
                             (case WaitForState env (createStateConf d projectID) conn1 of
                                (WaitFailed err, conn2) \<Rightarrow>
                                  (Failed (Sprintf errorCreate [ErrorText env err]), d, conn2)
                              | (WaitPanic, conn2) \<Rightarrow> (Panicked, d, conn2)
                              | (WaitDone r, conn2) \<Rightarrow>
                                  resourceMongoDBAtlasClusterRead env
                                    (SetId (encodeStateID env
                                              (stateIDMap (ID cluster) projectID (Name cluster))) d)
                                    conn2)))))"

text \<open>
  \<^verbatim>\<open>resourceMongoDBAtlasClusterUpdate\<close>. \<open>cluster\<close> is the pointer \<^verbatim>\<open>new(matlas.Cluster)\<close>, so
  the test before the \<^verbatim>\<open>Update\<close> call compares a pointer to a cluster with a cluster
  value. The request is built in two parts, before and after the replication specs,
  whose expansion may return early.
\<close>

definition providerSettingsChanged :: "ResourceData \<Rightarrow> bool" where
  "providerSettingsChanged d =
     (HasChange provider_disk_iops d \<or> HasChange provider_encrypt_ebs_volume d \<or>
      HasChange backing_provider_name d \<or> HasChange provider_disk_type_name d \<or>
      HasChange provider_instance_size_name d \<or> HasChange provider_instance_size_name d \<or>
      HasChange provider_instance_size_name d \<or> HasChange provider_name d \<or>
      HasChange provider_region_name d \<or> HasChange provider_volume_type d)"

definition updateRequest_settings :: "ResourceData \<Rightarrow> Cluster" where
  "updateRequest_settings d =
     (let cluster = zeroCluster;
          cluster = (if HasChange bi_connector d
                     then cluster\<lparr>BiConnector := fst (expandBiConnector d)\<rparr>
                     else cluster);
          providerSettings = zeroProviderSettings;
          providerSettings = (if providerSettingsChanged d
                              then expandProviderSetting d
                              else providerSettings)
      in if \<not> DeepEqual (ProviderSettingsValue providerSettings)
                (ProviderSettingsValue zeroProviderSettings)
         then cluster\<lparr>ProviderSettings := Some providerSettings\<rparr>
         else cluster)"

definition updateRequest_scalars :: "ResourceData \<Rightarrow> Cluster \<Rightarrow> Cluster" where
  "updateRequest_scalars d cluster =
     (let cluster = (if HasChange auto_scaling_disk_gb_enabled d
                     then cluster\<lparr>AutoScaling :=
                            (AutoScaling cluster)
                              \<lparr>DiskGBEnabled := Some (auto_scaling_disk_gb_enabled (attrs d))\<rparr>\<rparr>
                     else cluster);
          cluster = (if HasChange encryption_at_rest_provider d
                     then cluster\<lparr>EncryptionAtRestProvider := encryption_at_rest_provider (attrs d)\<rparr>
                     else cluster);
          cluster = (if HasChange mongo_db_major_version d
                     then cluster\<lparr>MongoDBMajorVersion := mongo_db_major_version (attrs d)\<rparr>
                     else cluster);
          cluster = (if HasChange cluster_type d
                     then cluster\<lparr>ClusterType := cluster_type (attrs d)\<rparr>
                     else cluster);
          cluster = (if HasChange backup_enabled d
                     then cluster\<lparr>BackupEnabled := Some (backup_enabled (attrs d))\<rparr>
                     else cluster);
          cluster = (if HasChange disk_size_gb d
                     then cluster\<lparr>DiskSizeGB := Some (disk_size_gb (attrs d))\<rparr>
                     else cluster);
          cluster = (if HasChange provider_backup_enabled d
                     then cluster\<lparr>ProviderBackupEnabled := Some (provider_backup_enabled (attrs d))\<rparr>
                     else cluster);
          cluster = (if HasChange replication_factor d
                     then cluster\<lparr>ReplicationFactor := Some (replication_factor (attrs d))\<rparr>
                     else cluster)
      in if HasChange num_shards d
         then cluster\<lparr>NumShards := Some (num_shards (attrs d))\<rparr>
         else cluster)"

definition updateStateConf :: "ResourceData \<Rightarrow> string \<Rightarrow> string \<Rightarrow> StateChangeConf" where
  "updateStateConf d clusterName projectID =
     \<lparr>Pending = [''CREATING'', ''UPDATING'', ''REPAIRING''],
      Target = [''IDLE''],
      Refresh = resourceClusterRefreshFunc clusterName projectID,
      Timeout = TimeoutCreate d,
      MinTimeout = 30 * Second,
      Delay = 1 * Minute,
      NotFoundChecks = 0\<rparr>"

text \<open>The second half of the update: the \<^verbatim>\<open>Update\<close> call behind its test, the wait and
  the final read.\<close>

definition updateSubmit ::
  "Env \<Rightarrow> ResourceData \<Rightarrow> string \<Rightarrow> string \<Rightarrow> Cluster \<Rightarrow> Client
     \<Rightarrow> outcome \<times> ResourceData \<times> Client" where
  "updateSubmit env d projectID clusterName cluster conn =
     (case (if \<not> DeepEqual (ClusterPointer cluster) (ClusterValue zeroCluster)
            then Clusters_Update projectID clusterName cluster conn
            else (None, conn)) of
        (Some err, conn1) \<Rightarrow> (Failed (Sprintf errorUpdate [clusterName, err]), d, conn1)
      | (None, conn1) \<Rightarrow>
          (case WaitForState env (updateStateConf d clusterName projectID) conn1 of
             (WaitFailed err, conn2) \<Rightarrow> (Failed (Sprintf errorCreate [ErrorText env err]), d, conn2)
           | (WaitPanic, conn2) \<Rightarrow> (Panicked, d, conn2)
           | (WaitDone r, conn2) \<Rightarrow> resourceMongoDBAtlasClusterRead env d conn2))"

definition resourceMongoDBAtlasClusterUpdate ::
  "Env \<Rightarrow> ResourceData \<Rightarrow> Client \<Rightarrow> outcome \<times> ResourceData \<times> Client" where
  "resourceMongoDBAtlasClusterUpdate env d conn =
     (let ids = decodeStateID env (Id d);
          projectID = index_map ids ''project_id'';
          clusterName = index_map ids ''cluster_name'';
          cluster = updateRequest_settings d
      in if HasChange_replication_specs d
         then (case expandReplicationSpecs d of
                 (replicationSpecs, Some err) \<Rightarrow>
                   (Failed (Sprintf errorUpdate [clusterName, err]), d, conn)
               | (replicationSpecs, None) \<Rightarrow>
                   updateSubmit env d projectID clusterName
                     (updateRequest_scalars d (cluster\<lparr>ReplicationSpecs := Some replicationSpecs\<rparr>))
                     conn)
         else updateSubmit env d projectID clusterName (updateRequest_scalars d cluster) conn)"

text \<open>\<^verbatim>\<open>resourceMongoDBAtlasClusterDelete\<close>.\<close>

definition deleteStateConf :: "string \<Rightarrow> string \<Rightarrow> StateChangeConf" where
  "deleteStateConf clusterName projectID =
     \<lparr>Pending = [''IDLE'', ''CREATING'', ''UPDATING'', ''REPAIRING'', ''DELETING''],
      Target = [''DELETED''],
      Refresh = resourceClusterRefreshFunc clusterName projectID,
      Timeout = 1 * Hour,
      MinTimeout = 30 * Second,
      Delay = 1 * Minute,
      NotFoundChecks = 0\<rparr>"

definition resourceMongoDBAtlasClusterDelete ::
  "Env \<Rightarrow> ResourceData \<Rightarrow> Client \<Rightarrow> outcome \<times> ResourceData \<times> Client" where
  "resourceMongoDBAtlasClusterDelete env d conn =
     (let ids = decodeStateID env (Id d);
          projectID = index_map ids ''project_id'';
          clusterName = index_map ids ''cluster_name''
      in case Clusters_Delete projectID clusterName conn of
           (Some err, conn1) \<Rightarrow> (Failed (Sprintf errorDelete [clusterName, err]), d, conn1)
         | (None, conn1) \<Rightarrow>
             (case WaitForState env (deleteStateConf clusterName projectID) conn1 of
                (WaitFailed err, conn2) \<Rightarrow>
                  (Failed (Sprintf errorDelete [clusterName, ErrorText env err]), d, conn2)
              | (WaitPanic, conn2) \<Rightarrow> (Panicked, d, conn2)
              | (WaitDone r, conn2) \<Rightarrow> (Ok, d, conn2)))"

text \<open>
  \<^verbatim>\<open>resourceMongoDBAtlasClusterImportState\<close>. \<open>importParts\<close> is the split of the identifier
  and the test on the number of parts; the operation then reads the cluster. With no
  error the source dereferences the cluster \<^verbatim>\<open>Get\<close> returned.
\<close>

definition importFormatError :: string where
  "importFormatError =
     ''import format error: to import a cluster, use the format {project_id}-{name}''"

definition importParts :: "string \<Rightarrow> string + string \<times> string" where
  "importParts ident =
     (case SplitN ident (CHR ''-'') 2 of
        [projectID, clusterName] \<Rightarrow> Inr (projectID, clusterName)
      | _ \<Rightarrow> Inl importFormatError)"

definition resourceMongoDBAtlasClusterImportState ::
  "Env \<Rightarrow> ResourceData \<Rightarrow> Client \<Rightarrow> outcome \<times> ResourceData \<times> Client" where
  "resourceMongoDBAtlasClusterImportState env d conn =
     (case importParts (Id d) of
        Inl err \<Rightarrow> (Failed err, d, conn)
      | Inr (projectID, clusterName) \<Rightarrow>
          (case Clusters_Get projectID clusterName conn of
             ((u, resp, Some err), conn') \<Rightarrow>
               (Failed (Sprintf ''couldn't import cluster %s in project %s, error: %s''
                          [clusterName, projectID, err]), d, conn')
           | ((None, resp, None), conn') \<Rightarrow> (Panicked, d, conn')
           | ((Some u, resp, None), conn') \<Rightarrow>
               (let d = SetId (encodeStateID env (stateIDMap (ID u) projectID (Name u))) d
                in (Ok, d\<lparr>attrs := (attrs d)\<lparr>project_id := GroupID u, name := Name u\<rparr>\<rparr>, conn'))))"

subsection \<open>Notions the properties are stated with\<close>

text \<open>
  The round trip of a configuration: the request create builds from it, read back
  into the store as the cluster the service returns. The two expansions are the ones
  create performs before it builds the request.
\<close>

definition roundTrip :: "ResourceData \<Rightarrow> ResourceData" where
  "roundTrip d =
     setClusterAttrs
       (clusterRequest d (fst (expandBiConnector d)) (expandProviderSetting d)
          (fst (expandReplicationSpecs d)))
       d"

text \<open>A message names an operation, a cluster and a cause when it contains the three
  texts.\<close>

definition names :: "string \<Rightarrow> string \<Rightarrow> string \<Rightarrow> string \<Rightarrow> bool" where
  "names msg operation clusterName cause =
     (Contains msg operation \<and> Contains msg clusterName \<and> Contains msg cause)"

text \<open>The project and the cluster name an operation decodes from the identifier.\<close>

definition projectOf :: "Env \<Rightarrow> ResourceData \<Rightarrow> string" where
  "projectOf env d = index_map (decodeStateID env (Id d)) ''project_id''"

definition clusterNameOf :: "Env \<Rightarrow> ResourceData \<Rightarrow> string" where
  "clusterNameOf env d = index_map (decodeStateID env (Id d)) ''cluster_name''"

subsection \<open>Example inputs\<close>

definition exampleAttrs :: Attrs where
  "exampleAttrs =
     zeroAttrs\<lparr>project_id := ''abc123'', name := ''my-cluster'',
       auto_scaling_disk_gb_enabled := True, disk_size_gb := 100, num_shards := 1,
       mongo_db_major_version := ''4.0'',
       provider_instance_size_name := ''M40'', provider_name := ''AWS'',
       provider_region_name := ''US_EAST_1''\<rparr>"

definition exampleSpec :: ReplicationSpecAttr where
  "exampleSpec =
     \<lparr>spec_id = [], spec_num_shards = 1,
      regions_config = [\<lparr>region_name = ''US_EAST_1'', electable_nodes = 3, priority = 7,
                          read_only_nodes = 0, analytics_nodes = 0\<rparr>],
      zone_name = ''Zone 1''\<rparr>"

text \<open>An environment whose identifier is the project and the cluster name joined by a
  hyphen, and in which a refresh fits into every 30 seconds of a timeout.\<close>

definition exampleEnv :: Env where
  "exampleEnv =
     \<lparr>encodeStateID = (\<lambda>m. index_map m ''project_id'' @ ''-'' @ index_map m ''cluster_name''),
      decodeStateID = (\<lambda>s. [''project_id'' \<mapsto> takeWhile (\<lambda>c. c \<noteq> CHR ''-'') s,
                             ''cluster_name'' \<mapsto> tl (dropWhile (\<lambda>c. c \<noteq> CHR ''-'') s)]),
      ErrorText = (\<lambda>e. ''wait failed''),
      reads_within = (\<lambda>t. t div 30)\<rparr>"

text \<open>A resource about to be created (no identifier yet, timeout of 20 minutes) and
  one that exists and whose configuration has not changed.\<close>

definition newResource :: ResourceData where
  "newResource =
     \<lparr>Id = [], prior = zeroAttrs, planned = exampleAttrs, attrs = exampleAttrs,
      TimeoutCreate = 1200\<rparr>"

definition existingResource :: ResourceData where
  "existingResource =
     \<lparr>Id = ''abc123-my-cluster'', prior = exampleAttrs, planned = exampleAttrs,
      attrs = exampleAttrs, TimeoutCreate = 1200\<rparr>"

definition clusterInState :: "string \<Rightarrow> Cluster" where
  "clusterInState s = zeroCluster\<lparr>ID := ''c1'', Name := ''my-cluster'', StateName := s\<rparr>"

definition stateReply :: "string \<Rightarrow> get_reply" where
  "stateReply s = (Some (clusterInState s), Some \<lparr>StatusCode = 200\<rparr>, None)"

definition notFoundReply :: get_reply where
  "notFoundReply = (None, Some \<lparr>StatusCode = 404\<rparr>, Some ''404 Not Found'')"

definition resetReply :: get_reply where
  "resetReply = (None, None, Some ''read tcp 10.0.0.1:443: read: connection reset by peer'')"

definition exampleClient :: "(nat \<Rightarrow> get_reply) \<Rightarrow> Client" where
  "exampleClient replies =
     \<lparr>calls = [], gets = 0,
      create_reply = Inr (zeroCluster\<lparr>ID := ''c1'', Name := ''my-cluster''\<rparr>),
      get_replies = replies, update_reply = None, delete_reply = None\<rparr>"

text \<open>A configuration whose BI connector is switched on with the text \<open>1\<close>, and a
  service that rejects every mutating call.\<close>

definition biConnectorResource :: ResourceData where
  "biConnectorResource =
     newResource\<lparr>attrs := exampleAttrs\<lparr>bi_connector := [''enabled'' \<mapsto> ''1'']\<rparr>\<rparr>"

text \<open>An existing resource with one replication spec whose configuration equals its
  state.\<close>

definition existingGeoResource :: ResourceData where
  "existingGeoResource =
     \<lparr>Id = ''abc123-my-cluster'',
      prior = exampleAttrs\<lparr>cluster_type := ''GEOSHARDED'', replication_specs := [exampleSpec]\<rparr>,
      planned = exampleAttrs\<lparr>cluster_type := ''GEOSHARDED'', replication_specs := [exampleSpec]\<rparr>,
      attrs = exampleAttrs\<lparr>cluster_type := ''GEOSHARDED'', replication_specs := [exampleSpec]\<rparr>,
      TimeoutCreate = 1200\<rparr>"

text \<open>A configuration with one replication spec and a cluster type that leaves the
  number of shards out.\<close>

definition geoConfig :: Config where
  "geoConfig =
     \<lparr>cfg_project_id = ''abc123'', cfg_name = ''my-cluster'',
      cfg_provider_instance_size_name = ''M40'', cfg_provider_name = ''AWS'',
      cfg_auto_scaling_disk_gb_enabled = None, cfg_backup_enabled = None,
      cfg_bi_connector = None, cfg_cluster_type = Some ''GEOSHARDED'',
      cfg_disk_size_gb = Some 100, cfg_encryption_at_rest_provider = None,
      cfg_mongo_db_major_version = Some ''4.0'', cfg_num_shards = None,
      cfg_provider_backup_enabled = Some True, cfg_backing_provider_name = None,
      cfg_provider_disk_iops = None, cfg_provider_disk_type_name = None,
      cfg_provider_encrypt_ebs_volume = None, cfg_provider_region_name = None,
      cfg_provider_volume_type = None, cfg_replication_factor = None,
      cfg_replication_specs = Some [exampleSpec]\<rparr>"

definition rejectingClient :: Client where
  "rejectingClient =
     (exampleClient (\<lambda>n. stateReply ''IDLE''))
       \<lparr>create_reply := Inl ''400 Bad Request'', update_reply := Some ''400 Bad Request'',
        delete_reply := Some ''400 Bad Request''\<rparr>"

section \<open>Properties\<close>

subsection \<open>Auxiliary facts\<close>

lemma SplitN_two:
  "SplitN s sep 2 =
     (if sep \<in> set s
      then [takeWhile (\<lambda>c. c \<noteq> sep) s, tl (dropWhile (\<lambda>c. c \<noteq> sep) s)]
      else [s])"
  by (simp add: numeral_2_eq_2)

lemma importParts_eq:
  "importParts ident =
     (if CHR ''-'' \<in> set ident
      then Inr (takeWhile (\<lambda>c. c \<noteq> CHR ''-'') ident, tl (dropWhile (\<lambda>c. c \<noteq> CHR ''-'') ident))
      else Inl importFormatError)"
  by (simp add: importParts_def SplitN_two)

lemma not_found_text_is_no_reset: "\<not> Contains ''404 Not Found'' ''reset by peer''"
  by (simp add: Contains_def sublist_Cons_right)

lemma reset_text_is_reset:
  "Contains ''read tcp 10.0.0.1:443: read: connection reset by peer'' ''reset by peer''"
  by (simp add: Contains_def sublist_Cons_right)

text \<open>The expansions return no error on the typed store.\<close>

lemma expandBiConnector_no_error: "snd (expandBiConnector d) = None"
  by (simp add: expandBiConnector_def Let_def)

lemma expandRegionsConfig_loop_no_error: "snd (expandRegionsConfig_loop regions rc) = None"
  by (induction regions arbitrary: rc) (simp_all add: ToStringE_def)

lemma expandReplicationSpecs_loop_no_error: "snd (expandReplicationSpecs_loop specs acc) = None"
proof (induction specs arbitrary: acc)
  case Nil
  show ?case by simp
next
  case (Cons spec specs)
  have "snd (expandRegionsConfig (regions_config spec)) = None"
    by (simp add: expandRegionsConfig_def expandRegionsConfig_loop_no_error)
  then obtain rc where "expandRegionsConfig (regions_config spec) = (rc, None)"
    by (cases "expandRegionsConfig (regions_config spec)") simp
  then show ?case using Cons.IH by simp
qed

lemma expandReplicationSpecs_no_error: "snd (expandReplicationSpecs d) = None"
  by (simp add: expandReplicationSpecs_def expandReplicationSpecs_loop_no_error)

text \<open>One refresh, by the reply it gets.\<close>

lemma refresh_cluster:
  assumes "get_replies conn (gets conn) = (Some c, resp, None)"
  shows "resourceClusterRefreshFunc n p conn =
           (Refreshed (Some (ClusterRead c)) (StateName c) None,
            conn\<lparr>calls := calls conn @ [GetCall p n], gets := Suc (gets conn)\<rparr>)"
  using assms by (simp add: resourceClusterRefreshFunc_def Clusters_Get_def)

lemma refresh_reset:
  assumes "get_replies conn (gets conn) = (c, resp, Some e)" and "Contains e ''reset by peer''"
  shows "resourceClusterRefreshFunc n p conn =
           (Refreshed None ''REPEATING'' None,
            conn\<lparr>calls := calls conn @ [GetCall p n], gets := Suc (gets conn)\<rparr>)"
  using assms by (simp add: resourceClusterRefreshFunc_def Clusters_Get_def)

lemma refresh_not_found:
  assumes "get_replies conn (gets conn) = (c, Some resp, Some e)" and "StatusCode resp = 404"
    and "\<not> Contains e ''reset by peer''"
  shows "resourceClusterRefreshFunc n p conn =
           (Refreshed (Some FortyTwo) ''DELETED'' None,
            conn\<lparr>calls := calls conn @ [GetCall p n], gets := Suc (gets conn)\<rparr>)"
  using assms by (simp add: resourceClusterRefreshFunc_def Clusters_Get_def)

lemma refresh_client:
  "snd (resourceClusterRefreshFunc n p conn) =
     conn\<lparr>calls := calls conn @ [GetCall p n], gets := Suc (gets conn)\<rparr>"
  by (simp add: resourceClusterRefreshFunc_def Clusters_Get_def
      split: prod.splits option.splits)

text \<open>The calls issued so far stay in the log, in their order.\<close>

lemma waitLoop_calls:
  assumes "Refresh conf = resourceClusterRefreshFunc n p"
  shows "\<exists>rest. calls (snd (waitLoop conf reads tick lastState conn)) = calls conn @ rest"
proof (induction reads arbitrary: tick lastState conn)
  case 0
  show ?case by simp
next
  case (Suc reads)
  obtain r conn' where step: "resourceClusterRefreshFunc n p conn = (r, conn')"
    by (cases "resourceClusterRefreshFunc n p conn")
  then have conn': "calls conn' = calls conn @ [GetCall p n]"
    using refresh_client [of n p conn] by simp
  have next_calls: "\<exists>rest. calls (snd (waitLoop conf reads t l conn')) = calls conn @ rest" for t l
    using Suc.IH [of t l conn'] conn' by auto
  show ?case
  proof (cases r)
    case RefreshPanic
    then show ?thesis using assms step conn' by simp
  next
    case (Refreshed res st err)
    then show ?thesis
      using assms step conn' next_calls
      by (cases err; cases res) simp_all
  qed
qed

lemma WaitForState_calls:
  assumes "Refresh conf = resourceClusterRefreshFunc n p"
  shows "\<exists>rest. calls (snd (WaitForState env conf conn)) = calls conn @ rest"
  unfolding WaitForState_def using assms by (rule waitLoop_calls)

lemma read_calls:
  "calls (snd (snd (resourceMongoDBAtlasClusterRead env d conn))) =
     calls conn @ [GetCall (index_map (decodeStateID env (Id d)) ''project_id'')
                           (index_map (decodeStateID env (Id d)) ''cluster_name'')]"
  by (simp add: resourceMongoDBAtlasClusterRead_def Let_def Clusters_Get_def
      split: prod.splits option.splits)

text \<open>Reading never touches the identifier.\<close>

lemma setClusterAttrs_Id: "Id (setClusterAttrs c d) = Id d"
  by (simp add: setClusterAttrs_def flattenProviderSettings_def Let_def split: option.splits)

lemma read_Id: "Id (fst (snd (resourceMongoDBAtlasClusterRead env d conn))) = Id d"
  by (simp add: resourceMongoDBAtlasClusterRead_def Let_def setClusterAttrs_Id
      split: prod.splits option.splits)

subsection \<open>Reading a cluster that is gone\<close>

text \<open>
  Claim C10. When the \<^verbatim>\<open>Get\<close> of a read comes back with an error and an HTTP response
  of status 404, the read returns no error and leaves the store as it found it: every
  attribute and the identifier are unchanged, so nothing marks the resource as deleted.
  The one effect is the \<^verbatim>\<open>Get\<close> call itself.
\<close>

theorem read_not_found_keeps_state:
  assumes "get_replies conn (gets conn) = (c, Some resp, Some e)" and "StatusCode resp = 404"
  shows "resourceMongoDBAtlasClusterRead env d conn =
           (Ok, d, conn\<lparr>calls := calls conn @ [GetCall (projectOf env d) (clusterNameOf env d)],
                       gets := Suc (gets conn)\<rparr>)"
  using assms
  by (simp add: resourceMongoDBAtlasClusterRead_def Clusters_Get_def Let_def projectOf_def
      clusterNameOf_def)

text \<open>The theorem at an existing resource whose cluster the service no longer has.\<close>

theorem read_not_found_keeps_state_witness:
  "resourceMongoDBAtlasClusterRead exampleEnv existingResource (exampleClient (\<lambda>n. notFoundReply)) =
     (Ok, existingResource,
      (exampleClient (\<lambda>n. notFoundReply))\<lparr>calls := [GetCall ''abc123'' ''my-cluster''], gets := 1\<rparr>)"
  using read_not_found_keeps_state [of "exampleClient (\<lambda>n. notFoundReply)" None
      "\<lparr>StatusCode = 404\<rparr>" "''404 Not Found''" exampleEnv existingResource]
  by (simp add: exampleClient_def notFoundReply_def exampleEnv_def existingResource_def
      index_map_def projectOf_def clusterNameOf_def)

subsection \<open>Validation before create\<close>

text \<open>
  What the two checks at the head of create do: with replication specs in the store,
  a cluster type or a number of shards for which \<^verbatim>\<open>d.GetOk\<close> answers false, that is the
  empty text or 0, makes create return the validation message of the first of them,
  with the store and the client untouched.
\<close>

lemma create_validates_replication_dependencies:
  assumes "GetOk_replication_specs d" and "\<not> GetOk_cluster_type d \<or> \<not> GetOk_num_shards d"
  shows "resourceMongoDBAtlasClusterCreate env d conn =
           (Failed (if \<not> GetOk_cluster_type d
                    then ''`cluster_type` should be set when `replication_specs` is set''
                    else ''`num_shards` should be set when `replication_specs` is set''), d, conn)"
  using assms by (auto simp add: resourceMongoDBAtlasClusterCreate_def Let_def)

text \<open>Once the two checks have passed, the first call create issues is \<^verbatim>\<open>Create\<close>, with
  the request built from the store.\<close>

lemma create_calls:
  assumes "\<not> (GetOk_replication_specs d \<and> \<not> GetOk_cluster_type d)"
    and "\<not> (GetOk_replication_specs d \<and> \<not> GetOk_num_shards d)"
  shows "\<exists>rest. calls (snd (snd (resourceMongoDBAtlasClusterCreate env d conn))) =
            calls conn @
            CreateCall (project_id (attrs d))
              (clusterRequest d (fst (expandBiConnector d)) (expandProviderSetting d)
                 (fst (expandReplicationSpecs d))) # rest"
proof -
  obtain b where b: "expandBiConnector d = (b, None)"
    using expandBiConnector_no_error [of d] by (cases "expandBiConnector d") simp
  obtain rs where rs: "expandReplicationSpecs d = (rs, None)"
    using expandReplicationSpecs_no_error [of d] by (cases "expandReplicationSpecs d") simp
  let ?p = "project_id (attrs d)"
  let ?request = "clusterRequest d b (expandProviderSetting d) rs"
  let ?conn1 = "conn\<lparr>calls := calls conn @ [CreateCall ?p ?request]\<rparr>"
  obtain w conn2 where wait: "WaitForState env (createStateConf d ?p) ?conn1 = (w, conn2)"
    by (cases "WaitForState env (createStateConf d ?p) ?conn1")
  have "Refresh (createStateConf d ?p) = resourceClusterRefreshFunc (name (attrs d)) ?p"
    by (simp add: createStateConf_def)
  then obtain rest where
    "calls (snd (WaitForState env (createStateConf d ?p) ?conn1)) = calls ?conn1 @ rest"
    using WaitForState_calls by blast
  then have conn2: "calls conn2 = calls conn @ CreateCall ?p ?request # rest"
    using wait by simp
  show ?thesis
    using assms b rs wait conn2
    by (cases "create_reply conn"; cases w)
      (simp_all add: resourceMongoDBAtlasClusterCreate_def Let_def Clusters_Create_def read_calls)
qed

text \<open>
  Claim C5 says that a create whose configuration sets replication specs fails with a
  validation error, before any call, when the cluster type or the number of shards is
  absent. For the cluster type the code does so: a configuration that leaves it out is
  rejected with the store and the client untouched. For the number of shards it does
  not: the schema gives \<^verbatim>\<open>num_shards\<close> the default 1, so for a configuration that leaves
  it out \<^verbatim>\<open>d.GetOk\<close> answers true, the check passes, and create issues the \<^verbatim>\<open>Create\<close>
  call, with one shard in the request.
\<close>

theorem create_accepts_omitted_num_shards:
  assumes "cfg_replication_specs cfg = Some specs" and "specs \<noteq> []"
  shows "(cfg_cluster_type cfg = None \<longrightarrow>
            resourceMongoDBAtlasClusterCreate env (newResourceData cfg timeout) conn =
              (Failed ''`cluster_type` should be set when `replication_specs` is set'',
               newResourceData cfg timeout, conn)) \<and>
         (\<forall>t. cfg_cluster_type cfg = Some t \<and> t \<noteq> [] \<and> cfg_num_shards cfg = None \<longrightarrow>
            GetOk_num_shards (newResourceData cfg timeout) \<and>
            (\<exists>request rest.
               calls (snd (snd (resourceMongoDBAtlasClusterCreate env
                                  (newResourceData cfg timeout) conn))) =
                 calls conn @ CreateCall (cfg_project_id cfg) request # rest \<and>
               NumShards request = Some 1))"
proof (intro conjI allI impI)
  let ?d = "newResourceData cfg timeout"
  have specs: "GetOk_replication_specs ?d"
    using assms
    by (simp add: GetOk_replication_specs_def newResourceData_def plannedAttrs_def orDefault_def)
  {
    assume "cfg_cluster_type cfg = None"
    then have "\<not> GetOk_cluster_type ?d"
      by (simp add: GetOk_cluster_type_def newResourceData_def plannedAttrs_def orDefault_def)
    then show "resourceMongoDBAtlasClusterCreate env ?d conn =
        (Failed ''`cluster_type` should be set when `replication_specs` is set'', ?d, conn)"
      using create_validates_replication_dependencies [OF specs, of env conn] by simp
  }
  fix t
  assume given: "cfg_cluster_type cfg = Some t \<and> t \<noteq> [] \<and> cfg_num_shards cfg = None"
  then have type: "GetOk_cluster_type ?d"
    by (simp add: GetOk_cluster_type_def newResourceData_def plannedAttrs_def orDefault_def)
  have one: "num_shards (attrs ?d) = 1"
    using given by (simp add: newResourceData_def plannedAttrs_def orDefault_def)
  then show shards: "GetOk_num_shards ?d"
    by (simp add: GetOk_num_shards_def)
  let ?request = "clusterRequest ?d (fst (expandBiConnector ?d)) (expandProviderSetting ?d)
                    (fst (expandReplicationSpecs ?d))"
  have "NumShards ?request = Some 1"
    using shards one by (simp add: clusterRequest_def Let_def)
  moreover have "project_id (attrs ?d) = cfg_project_id cfg"
    by (simp add: newResourceData_def plannedAttrs_def)
  moreover have "\<exists>rest. calls (snd (snd (resourceMongoDBAtlasClusterCreate env ?d conn))) =
      calls conn @ CreateCall (project_id (attrs ?d)) ?request # rest"
    using type shards by (intro create_calls) simp_all
  ultimately show "\<exists>request rest.
      calls (snd (snd (resourceMongoDBAtlasClusterCreate env ?d conn))) =
        calls conn @ CreateCall (cfg_project_id cfg) request # rest \<and>
      NumShards request = Some 1"
    by metis
qed

text \<open>The theorem at a configuration with one replication spec and a cluster type that
  leaves the number of shards out, and at the same configuration without the cluster
  type.\<close>

theorem create_accepts_omitted_num_shards_witness:
  "cfg_num_shards geoConfig = None \<and>
   (\<exists>request rest.
      calls (snd (snd (resourceMongoDBAtlasClusterCreate exampleEnv (newResourceData geoConfig 1200)
                         (exampleClient (\<lambda>n. stateReply ''IDLE''))))) =
        CreateCall ''abc123'' request # rest \<and>
      NumShards request = Some 1) \<and>
   resourceMongoDBAtlasClusterCreate exampleEnv
       (newResourceData (geoConfig\<lparr>cfg_cluster_type := None\<rparr>) 1200)
       (exampleClient (\<lambda>n. stateReply ''IDLE'')) =
     (Failed ''`cluster_type` should be set when `replication_specs` is set'',
      newResourceData (geoConfig\<lparr>cfg_cluster_type := None\<rparr>) 1200,
      exampleClient (\<lambda>n. stateReply ''IDLE''))"
  using create_accepts_omitted_num_shards
      [of geoConfig "[exampleSpec]" exampleEnv 1200 "exampleClient (\<lambda>n. stateReply ''IDLE'')"]
    create_accepts_omitted_num_shards
      [of "geoConfig\<lparr>cfg_cluster_type := None\<rparr>" "[exampleSpec]" exampleEnv 1200
        "exampleClient (\<lambda>n. stateReply ''IDLE'')"]
  by (simp add: geoConfig_def exampleClient_def)

subsection \<open>The identifier given to import\<close>

text \<open>
  Claim C6. Import splits its identifier at the first hyphen: what stands before it is
  the project, what stands after it (further hyphens included) is the cluster name, and
  these are the arguments of the \<^verbatim>\<open>Get\<close> call that follows. So \<open>abc123-my-cluster\<close> gives
  project \<open>abc123\<close> and cluster \<open>my-cluster\<close>. An identifier without a hyphen, such as
  \<open>nohyphen\<close>, fails with the format error, and no call is issued.
\<close>

theorem import_splits_at_first_hyphen:
  "importParts ''abc123-my-cluster'' = Inr (''abc123'', ''my-cluster'') \<and>
   importParts ''nohyphen'' = Inl importFormatError \<and>
   (CHR ''-'' \<notin> set (Id d) \<longrightarrow>
      resourceMongoDBAtlasClusterImportState env d conn = (Failed importFormatError, d, conn)) \<and>
   (CHR ''-'' \<in> set (Id d) \<longrightarrow>
      importParts (Id d) =
        Inr (takeWhile (\<lambda>c. c \<noteq> CHR ''-'') (Id d), tl (dropWhile (\<lambda>c. c \<noteq> CHR ''-'') (Id d))) \<and>
      calls (snd (snd (resourceMongoDBAtlasClusterImportState env d conn))) =
        calls conn @ [GetCall (takeWhile (\<lambda>c. c \<noteq> CHR ''-'') (Id d))
                              (tl (dropWhile (\<lambda>c. c \<noteq> CHR ''-'') (Id d)))])"
  by (auto simp add: resourceMongoDBAtlasClusterImportState_def importParts_eq Clusters_Get_def
      Let_def split: prod.splits option.splits)

text \<open>The theorem at the two identifiers, given to the import operation.\<close>

theorem import_splits_at_first_hyphen_witness:
  "resourceMongoDBAtlasClusterImportState exampleEnv (newResource\<lparr>Id := ''nohyphen''\<rparr>)
      (exampleClient (\<lambda>n. stateReply ''IDLE'')) =
     (Failed importFormatError, newResource\<lparr>Id := ''nohyphen''\<rparr>,
      exampleClient (\<lambda>n. stateReply ''IDLE''))
   \<and> calls (snd (snd (resourceMongoDBAtlasClusterImportState exampleEnv
        (newResource\<lparr>Id := ''abc123-my-cluster''\<rparr>) (exampleClient (\<lambda>n. stateReply ''IDLE''))))) =
        [GetCall ''abc123'' ''my-cluster'']"
  using import_splits_at_first_hyphen
      [of "newResource\<lparr>Id := ''nohyphen''\<rparr>" exampleEnv "exampleClient (\<lambda>n. stateReply ''IDLE'')"]
    import_splits_at_first_hyphen
      [of "newResource\<lparr>Id := ''abc123-my-cluster''\<rparr>" exampleEnv
        "exampleClient (\<lambda>n. stateReply ''IDLE'')"]
  by (simp add: exampleClient_def)

subsection \<open>The identifier after a failed create\<close>

text \<open>
  Claim C8. If the \<^verbatim>\<open>Create\<close> call fails, or the wait for \<open>IDLE\<close> that follows it fails,
  create returns an error and the store exactly as it was given, so an identifier that
  was unset stays unset. Conversely, create changes the identifier only when the
  \<^verbatim>\<open>Create\<close> call has succeeded and the wait has ended with success.
\<close>

theorem create_failure_leaves_identity_unset:
  "(let projectID = project_id (attrs d);
        conn1 = snd (Clusters_Create projectID
                  (clusterRequest d (fst (expandBiConnector d)) (expandProviderSetting d)
                     (fst (expandReplicationSpecs d))) conn);
        poll = fst (WaitForState env (createStateConf d projectID) conn1);
        result = resourceMongoDBAtlasClusterCreate env d conn
    in (\<forall>e. create_reply conn = Inl e \<longrightarrow> fst result \<noteq> Ok \<and> fst (snd result) = d) \<and>
       (\<forall>w. poll = WaitFailed w \<longrightarrow> fst result \<noteq> Ok \<and> fst (snd result) = d) \<and>
       (Id (fst (snd result)) \<noteq> Id d \<longrightarrow>
          (\<exists>cluster r. create_reply conn = Inr cluster \<and> poll = WaitDone r)))"
proof -
  obtain b where b: "expandBiConnector d = (b, None)"
    using expandBiConnector_no_error [of d] by (cases "expandBiConnector d") simp
  obtain rs where rs: "expandReplicationSpecs d = (rs, None)"
    using expandReplicationSpecs_no_error [of d] by (cases "expandReplicationSpecs d") simp
  let ?p = "project_id (attrs d)"
  let ?conn1 = "conn\<lparr>calls := calls conn @
                  [CreateCall ?p (clusterRequest d b (expandProviderSetting d) rs)]\<rparr>"
  obtain w conn2 where wait: "WaitForState env (createStateConf d ?p) ?conn1 = (w, conn2)"
    by (cases "WaitForState env (createStateConf d ?p) ?conn1")
  show ?thesis
    using b rs wait
    by (cases "create_reply conn"; cases w)
      (simp_all add: resourceMongoDBAtlasClusterCreate_def Let_def Clusters_Create_def SetId_def
        read_Id)
qed

text \<open>The theorem at a new resource whose \<^verbatim>\<open>Create\<close> call the service rejects.\<close>

theorem create_failure_leaves_identity_unset_witness:
  "fst (resourceMongoDBAtlasClusterCreate exampleEnv newResource
          ((exampleClient (\<lambda>n. stateReply ''IDLE''))\<lparr>create_reply := Inl ''400 Bad Request''\<rparr>)) \<noteq> Ok
   \<and> fst (snd (resourceMongoDBAtlasClusterCreate exampleEnv newResource
          ((exampleClient (\<lambda>n. stateReply ''IDLE''))\<lparr>create_reply := Inl ''400 Bad Request''\<rparr>)))
       = newResource
   \<and> Id newResource = []"
  using create_failure_leaves_identity_unset
    [of newResource "(exampleClient (\<lambda>n. stateReply ''IDLE''))\<lparr>create_reply := Inl ''400 Bad Request''\<rparr>"
      exampleEnv]
  by (simp add: Let_def exampleClient_def newResource_def)

subsection \<open>The poll loop on scripted reads\<close>

text \<open>
  Claim C9. With target \<open>IDLE\<close> (the loop of create, and the loop of update), when the
  next three status reads return \<open>CREATING\<close>, \<open>CREATING\<close> and \<open>IDLE\<close> and the timeout
  leaves room for three reads, \<^verbatim>\<open>WaitForState\<close> ends with success, its result is the
  cluster of the third read, whose state is \<open>IDLE\<close>, and it has issued exactly three
  \<^verbatim>\<open>Get\<close> calls.
\<close>

theorem poll_creating_creating_idle:
  assumes "get_replies conn (gets conn) = (Some c1, r1, None)" and "StateName c1 = ''CREATING''"
    and "get_replies conn (Suc (gets conn)) = (Some c2, r2, None)" and "StateName c2 = ''CREATING''"
    and "get_replies conn (Suc (Suc (gets conn))) = (Some c3, r3, None)" and "StateName c3 = ''IDLE''"
    and "3 \<le> reads_within env (TimeoutCreate d)"
  shows "WaitForState env (createStateConf d p) conn =
           (WaitDone (Some (ClusterRead c3)),
            conn\<lparr>calls := calls conn @
                   [GetCall p (name (attrs d)), GetCall p (name (attrs d)), GetCall p (name (attrs d))],
                 gets := gets conn + 3\<rparr>)
       \<and> WaitForState env (updateStateConf d n p) conn =
           (WaitDone (Some (ClusterRead c3)),
            conn\<lparr>calls := calls conn @ [GetCall p n, GetCall p n, GetCall p n],
                 gets := gets conn + 3\<rparr>)"
proof -
  obtain k where k: "reads_within env (TimeoutCreate d) = Suc (Suc (Suc k))"
    using assms(7) by (metis Suc_le_D numeral_3_eq_3 Suc_le_mono)
  show ?thesis
    using assms(1-6)
    by (simp add: WaitForState_def createStateConf_def updateStateConf_def k refresh_cluster)
qed

text \<open>The theorem at a service that answers \<open>CREATING\<close> twice and \<open>IDLE\<close> from then on.\<close>

theorem poll_creating_creating_idle_witness:
  "WaitForState exampleEnv (createStateConf newResource ''abc123'')
     (exampleClient (\<lambda>n. if n < 2 then stateReply ''CREATING'' else stateReply ''IDLE'')) =
   (WaitDone (Some (ClusterRead (clusterInState ''IDLE''))),
    (exampleClient (\<lambda>n. if n < 2 then stateReply ''CREATING'' else stateReply ''IDLE''))
      \<lparr>calls := [GetCall ''abc123'' ''my-cluster'', GetCall ''abc123'' ''my-cluster'',
                 GetCall ''abc123'' ''my-cluster''],
       gets := 3\<rparr>)
   \<and> StateName (clusterInState ''IDLE'') = ''IDLE''"
  using poll_creating_creating_idle
    [of "exampleClient (\<lambda>n. if n < 2 then stateReply ''CREATING'' else stateReply ''IDLE'')"
      "clusterInState ''CREATING''" "Some \<lparr>StatusCode = 200\<rparr>"
      "clusterInState ''CREATING''" "Some \<lparr>StatusCode = 200\<rparr>"
      "clusterInState ''IDLE''" "Some \<lparr>StatusCode = 200\<rparr>" exampleEnv newResource "''abc123''"]
  by (simp add: exampleClient_def stateReply_def clusterInState_def exampleEnv_def newResource_def
      exampleAttrs_def zeroAttrs_def)

subsection \<open>A cluster not found while polling\<close>

text \<open>
  Claim C4. A status read that fails with HTTP status 404 (and whose error is not a
  connection reset) ends the loop at once, at whatever round it comes: with success in
  the loop of delete, whose target is \<open>DELETED\<close>, and with an error in the loops of
  create and update, whose target is \<open>IDLE\<close>. The rounds are those of \<open>waitLoop\<close>, taken
  with any number of reads left, any count of rounds without a result and any last
  state.
\<close>

theorem not_found_read_succeeds_only_for_delete:
  assumes "get_replies conn (gets conn) = (c, Some resp, Some e)" and "StatusCode resp = 404"
    and "\<not> Contains e ''reset by peer''"
  shows "fst (waitLoop (deleteStateConf n p) (Suc reads) tick lastState conn) =
           WaitDone (Some FortyTwo)
       \<and> fst (waitLoop (createStateConf d p) (Suc reads) tick lastState conn) =
           WaitFailed (UnexpectedStateError ''DELETED'' [''IDLE''])
       \<and> fst (waitLoop (updateStateConf d n p) (Suc reads) tick lastState conn) =
           WaitFailed (UnexpectedStateError ''DELETED'' [''IDLE''])"
  using assms
  by (simp add: refresh_not_found deleteStateConf_def createStateConf_def updateStateConf_def)

text \<open>The theorem at a service that has no such cluster.\<close>

theorem not_found_read_succeeds_only_for_delete_witness:
  "fst (waitLoop (deleteStateConf ''my-cluster'' ''abc123'') (Suc 0) 0 []
          (exampleClient (\<lambda>n. notFoundReply)))
     = WaitDone (Some FortyTwo)
   \<and> fst (waitLoop (createStateConf newResource ''abc123'') (Suc 0) 0 []
          (exampleClient (\<lambda>n. notFoundReply)))
     = WaitFailed (UnexpectedStateError ''DELETED'' [''IDLE''])
   \<and> fst (waitLoop (updateStateConf newResource ''my-cluster'' ''abc123'') (Suc 0) 0 []
          (exampleClient (\<lambda>n. notFoundReply)))
     = WaitFailed (UnexpectedStateError ''DELETED'' [''IDLE''])"
  using not_found_read_succeeds_only_for_delete
    [of "exampleClient (\<lambda>n. notFoundReply)" None "\<lparr>StatusCode = 404\<rparr>" "''404 Not Found''"
      "''my-cluster''" "''abc123''" 0 0 "[]" newResource]
  by (simp add: exampleClient_def notFoundReply_def not_found_text_is_no_reset)

subsection \<open>Connection resets while polling\<close>

text \<open>Rounds that bring a connection reset count as rounds without a result: from a
  count of \<open>tick\<close> such rounds, the loop ends at the round that makes them 21.\<close>

lemma resets_end_loop:
  assumes resets: "\<And>i. \<exists>c r e. get_replies conn i = (c, r, Some e) \<and> Contains e ''reset by peer''"
    and conf: "Refresh conf = resourceClusterRefreshFunc n p" "Target conf \<noteq> []"
      "NotFoundChecks conf = 0"
    and "tick \<le> 20" and "20 < reads + tick"
  shows "fst (waitLoop conf reads tick lastState conn) = WaitFailed (NotFoundError 21) \<and>
         gets (snd (waitLoop conf reads tick lastState conn)) = gets conn + (21 - tick)"
  using assms(5,6) resets
proof (induction reads arbitrary: tick lastState conn)
  case 0
  then show ?case by simp
next
  case (Suc reads)
  obtain c r e where reply: "get_replies conn (gets conn) = (c, r, Some e)"
    and e: "Contains e ''reset by peer''"
    using Suc.prems(3) by blast
  let ?conn' = "conn\<lparr>calls := calls conn @ [GetCall p n], gets := Suc (gets conn)\<rparr>"
  have step: "resourceClusterRefreshFunc n p conn = (Refreshed None ''REPEATING'' None, ?conn')"
    using reply e by (rule refresh_reset)
  show ?case
  proof (cases "tick = 20")
    case True
    then show ?thesis using conf step by (simp add: notFoundChecks_def)
  next
    case False
    then have "Suc tick \<le> 20" and "20 < reads + Suc tick"
      using Suc.prems(1,2) by simp_all
    moreover have "\<And>i. \<exists>c r e. get_replies ?conn' i = (c, r, Some e) \<and> Contains e ''reset by peer''"
      using Suc.prems(3) by simp
    ultimately have
      "fst (waitLoop conf reads (Suc tick) ''REPEATING'' ?conn') = WaitFailed (NotFoundError 21) \<and>
       gets (snd (waitLoop conf reads (Suc tick) ''REPEATING'' ?conn')) = gets ?conn' + (21 - Suc tick)"
      by (rule Suc.IH)
    then show ?thesis
      using conf step False Suc.prems(1) by (simp add: notFoundChecks_def)
  qed
qed

text \<open>While fewer than 20 rounds in a row have brought no result, a reset lets each of
  the three loops go on to its next round.\<close>

lemma reset_round_goes_on:
  assumes "get_replies conn (gets conn) = (c, r, Some e)" and "Contains e ''reset by peer''"
    and "tick < 20"
    and "conf = createStateConf d p \<and> n = name (attrs d) \<or> conf = updateStateConf d n p \<or>
         conf = deleteStateConf n p"
  shows "waitLoop conf (Suc reads) tick lastState conn =
           waitLoop conf reads (Suc tick) ''REPEATING''
             (conn\<lparr>calls := calls conn @ [GetCall p n], gets := Suc (gets conn)\<rparr>)"
  using assms
  by (auto simp add: refresh_reset notFoundChecks_def createStateConf_def updateStateConf_def
      deleteStateConf_def)

text \<open>
  Claim C2 says that a status read failing with a connection reset never ends the
  loop before the timeout. The code does not do that: the refresh function answers a
  reset with a nil result (state \<open>REPEATING\<close>, no error), and the loop counts rounds with
  a nil result. When every read is reset and the timeout leaves room for more than 21
  reads, each of the three loops (after create, after update, after delete) ends at
  the 21st read with a \<open>NotFoundError\<close>, not with the timeout.
\<close>

theorem resets_end_poll_with_not_found:
  assumes "\<And>i. \<exists>c r e. get_replies conn i = (c, r, Some e) \<and> Contains e ''reset by peer''"
    and "21 < reads_within env (TimeoutCreate d)" and "21 < reads_within env (1 * Hour)"
  shows "fst (WaitForState env (createStateConf d p) conn) = WaitFailed (NotFoundError 21)
       \<and> gets (snd (WaitForState env (createStateConf d p) conn)) = gets conn + 21
       \<and> fst (WaitForState env (updateStateConf d n p) conn) = WaitFailed (NotFoundError 21)
       \<and> gets (snd (WaitForState env (updateStateConf d n p) conn)) = gets conn + 21
       \<and> fst (WaitForState env (deleteStateConf n p) conn) = WaitFailed (NotFoundError 21)
       \<and> gets (snd (WaitForState env (deleteStateConf n p) conn)) = gets conn + 21"
proof -
  have create:
    "fst (waitLoop (createStateConf d p) (reads_within env (TimeoutCreate d)) 0 [] conn) =
        WaitFailed (NotFoundError 21) \<and>
     gets (snd (waitLoop (createStateConf d p) (reads_within env (TimeoutCreate d)) 0 [] conn)) =
        gets conn + (21 - 0)"
    using assms(1,2)
    by (intro resets_end_loop [where n = "name (attrs d)" and p = p])
      (simp_all add: createStateConf_def)
  have update:
    "fst (waitLoop (updateStateConf d n p) (reads_within env (TimeoutCreate d)) 0 [] conn) =
        WaitFailed (NotFoundError 21) \<and>
     gets (snd (waitLoop (updateStateConf d n p) (reads_within env (TimeoutCreate d)) 0 [] conn)) =
        gets conn + (21 - 0)"
    using assms(1,2)
    by (intro resets_end_loop [where n = n and p = p]) (simp_all add: updateStateConf_def)
  have delete:
    "fst (waitLoop (deleteStateConf n p) (reads_within env (1 * Hour)) 0 [] conn) =
        WaitFailed (NotFoundError 21) \<and>
     gets (snd (waitLoop (deleteStateConf n p) (reads_within env (1 * Hour)) 0 [] conn)) =
        gets conn + (21 - 0)"
    using assms(1,3)
    by (intro resets_end_loop [where n = n and p = p]) (simp_all add: deleteStateConf_def)
  show ?thesis
    using create update delete
    by (simp add: WaitForState_def createStateConf_def updateStateConf_def deleteStateConf_def)
qed

text \<open>The theorem at a service whose every read is reset, with a timeout of 20 minutes
  that leaves room for 40 reads.\<close>

theorem resets_end_poll_with_not_found_witness:
  "fst (WaitForState exampleEnv (createStateConf newResource ''abc123'')
          (exampleClient (\<lambda>n. resetReply)))
     = WaitFailed (NotFoundError 21)
   \<and> gets (snd (WaitForState exampleEnv (createStateConf newResource ''abc123'')
        (exampleClient (\<lambda>n. resetReply)))) = 21
   \<and> reads_within exampleEnv (TimeoutCreate newResource) = 40
   \<and> fst (WaitForState exampleEnv (updateStateConf newResource ''my-cluster'' ''abc123'')
        (exampleClient (\<lambda>n. resetReply))) = WaitFailed (NotFoundError 21)
   \<and> fst (WaitForState exampleEnv (deleteStateConf ''my-cluster'' ''abc123'')
        (exampleClient (\<lambda>n. resetReply))) = WaitFailed (NotFoundError 21)"
  using resets_end_poll_with_not_found [of "exampleClient (\<lambda>n. resetReply)" exampleEnv newResource
      "''abc123''" "''my-cluster''"]
  by (simp add: exampleClient_def resetReply_def reset_text_is_reset exampleEnv_def
      newResource_def Hour_def Minute_def Second_def)

subsection \<open>An update that changes nothing\<close>

lemma no_change_settings:
  assumes "prior d = planned d"
  shows "updateRequest_settings d = zeroCluster"
  using assms
  by (simp add: updateRequest_settings_def providerSettingsChanged_def HasChange_def Let_def)

lemma no_change_scalars:
  assumes "prior d = planned d"
  shows "updateRequest_scalars d cluster = cluster"
  using assms by (simp add: updateRequest_scalars_def HasChange_def Let_def)

lemma updateSubmit_calls:
  "\<exists>rest. calls (snd (snd (updateSubmit env d p n cluster conn))) =
            calls conn @ UpdateCall p n cluster # rest"
proof (cases "update_reply conn")
  case (Some err)
  then show ?thesis by (simp add: updateSubmit_def Clusters_Update_def)
next
  case None
  let ?conn1 = "conn\<lparr>calls := calls conn @ [UpdateCall p n cluster]\<rparr>"
  obtain w conn2 where wait: "WaitForState env (updateStateConf d n p) ?conn1 = (w, conn2)"
    by (cases "WaitForState env (updateStateConf d n p) ?conn1")
  have "Refresh (updateStateConf d n p) = resourceClusterRefreshFunc n p"
    by (simp add: updateStateConf_def)
  then obtain rest where
    "calls (snd (WaitForState env (updateStateConf d n p) ?conn1)) = calls ?conn1 @ rest"
    using WaitForState_calls by blast
  then have conn2: "calls conn2 = calls conn @ UpdateCall p n cluster # rest"
    using wait by simp
  show ?thesis
    using None wait conn2
    by (cases w) (simp_all add: updateSubmit_def Clusters_Update_def read_calls)
qed

text \<open>
  Claim C1 says that an update in which no attribute differs from the last-known state
  builds an empty request and skips the \<^verbatim>\<open>Update\<close> call. The call is never skipped: the
  test before it compares the pointer \<open>cluster\<close> with a cluster value, two values of
  different types, which are never deeply equal. So the first call of such an update
  is \<^verbatim>\<open>Update\<close>. Its request is empty (the zero cluster) when the resource has no
  replication specs; when it has, \<^verbatim>\<open>d.HasChange("replication_specs")\<close> answers true
  although nothing differs, and the request carries the replication specs and nothing
  else.
\<close>

theorem update_without_changes_still_calls_Update:
  assumes "prior d = planned d"
  shows "\<exists>rest. calls (snd (snd (resourceMongoDBAtlasClusterUpdate env d conn))) =
            calls conn @
            UpdateCall (projectOf env d) (clusterNameOf env d)
              (if replication_specs (planned d) = [] then zeroCluster
               else zeroCluster\<lparr>ReplicationSpecs := Some (fst (expandReplicationSpecs d))\<rparr>) # rest"
proof (cases "replication_specs (planned d) = []")
  case True
  then have "\<not> HasChange_replication_specs d"
    using assms by (simp add: HasChange_replication_specs_def)
  then have "resourceMongoDBAtlasClusterUpdate env d conn =
      updateSubmit env d (projectOf env d) (clusterNameOf env d) zeroCluster conn"
    using no_change_settings [OF assms] no_change_scalars [OF assms]
    by (simp add: resourceMongoDBAtlasClusterUpdate_def Let_def projectOf_def clusterNameOf_def)
  then show ?thesis
    using True updateSubmit_calls by simp
next
  case False
  then have changed: "HasChange_replication_specs d"
    by (simp add: HasChange_replication_specs_def)
  obtain rs where rs: "expandReplicationSpecs d = (rs, None)"
    using expandReplicationSpecs_no_error [of d] by (cases "expandReplicationSpecs d") simp
  have "resourceMongoDBAtlasClusterUpdate env d conn =
      updateSubmit env d (projectOf env d) (clusterNameOf env d)
        (zeroCluster\<lparr>ReplicationSpecs := Some rs\<rparr>) conn"
    using changed rs no_change_settings [OF assms] no_change_scalars [OF assms]
    by (simp add: resourceMongoDBAtlasClusterUpdate_def Let_def projectOf_def clusterNameOf_def)
  then show ?thesis
    using False rs updateSubmit_calls by simp
qed

text \<open>The theorem at two existing resources whose configuration equals their state, one
  without replication specs and one with a replication spec.\<close>

theorem update_without_changes_still_calls_Update_witness:
  "prior existingResource = planned existingResource \<and>
   (\<exists>rest. calls (snd (snd (resourceMongoDBAtlasClusterUpdate exampleEnv existingResource
              (exampleClient (\<lambda>n. stateReply ''IDLE''))))) =
            UpdateCall ''abc123'' ''my-cluster'' zeroCluster # rest) \<and>
   prior existingGeoResource = planned existingGeoResource \<and>
   (\<exists>rest. calls (snd (snd (resourceMongoDBAtlasClusterUpdate exampleEnv existingGeoResource
              (exampleClient (\<lambda>n. stateReply ''IDLE''))))) =
            UpdateCall ''abc123'' ''my-cluster''
              (zeroCluster\<lparr>ReplicationSpecs :=
                 Some (fst (expandReplicationSpecs existingGeoResource))\<rparr>) # rest)"
  using update_without_changes_still_calls_Update [of existingResource exampleEnv
      "exampleClient (\<lambda>n. stateReply ''IDLE'')"]
    update_without_changes_still_calls_Update [of existingGeoResource exampleEnv
      "exampleClient (\<lambda>n. stateReply ''IDLE'')"]
  by (simp add: existingResource_def existingGeoResource_def exampleClient_def projectOf_def
      clusterNameOf_def exampleEnv_def index_map_def exampleAttrs_def zeroAttrs_def)

subsection \<open>The round trip of a configuration\<close>

text \<open>Storing under a key the map does not have appends the entry.\<close>

lemma update_fresh_key: "k \<notin> fst ` set al \<Longrightarrow> AList.update k v al = al @ [(k, v)]"
  by (induction al) auto

lemma expandRegionsConfig_loop_distinct:
  assumes "distinct (map region_name regions)"
    and "set (map region_name regions) \<inter> fst ` set acc = {}"
  shows "flattenRegionsConfig (fst (expandRegionsConfig_loop regions acc)) =
           flattenRegionsConfig acc @ regions"
  using assms
proof (induction regions arbitrary: acc)
  case Nil
  show ?case by simp
next
  case (Cons region regions)
  let ?cfg = "\<lparr>AnalyticsNodes = Some (analytics_nodes region),
               ElectableNodes = Some (electable_nodes region),
               Priority = Some (priority region),
               ReadOnlyNodes = Some (read_only_nodes region)\<rparr>"
  have "region_name region \<notin> fst ` set acc"
    using Cons.prems(2) by auto
  then have upd: "AList.update (region_name region) ?cfg acc = acc @ [(region_name region, ?cfg)]"
    by (rule update_fresh_key)
  have "distinct (map region_name regions)"
    using Cons.prems(1) by simp
  moreover have
    "set (map region_name regions) \<inter> fst ` set (acc @ [(region_name region, ?cfg)]) = {}"
    using Cons.prems by auto
  ultimately have
    "flattenRegionsConfig
       (fst (expandRegionsConfig_loop regions (acc @ [(region_name region, ?cfg)]))) =
     flattenRegionsConfig (acc @ [(region_name region, ?cfg)]) @ regions"
    by (rule Cons.IH)
  then show ?case
    using upd by (simp add: ToStringE_def flattenRegionsConfig_def deref_int_def)
qed

lemma regions_round_trip:
  assumes "distinct (map region_name regions)"
  shows "flattenRegionsConfig (fst (expandRegionsConfig regions)) = regions"
  using expandRegionsConfig_loop_distinct [of regions "[]"] assms
  by (simp add: expandRegionsConfig_def flattenRegionsConfig_def)

lemma expandReplicationSpecs_loop_flatten:
  assumes "\<forall>spec \<in> set specs. distinct (map region_name (regions_config spec))"
  shows "flattenReplicationSpecs (Some (fst (expandReplicationSpecs_loop specs acc))) =
           flattenReplicationSpecs (Some acc) @ specs"
  using assms
proof (induction specs arbitrary: acc)
  case Nil
  show ?case by simp
next
  case (Cons spec specs)
  obtain rc where rc: "expandRegionsConfig (regions_config spec) = (rc, None)"
    using expandRegionsConfig_loop_no_error [of "regions_config spec" "[]"]
    by (cases "expandRegionsConfig (regions_config spec)") (simp add: expandRegionsConfig_def)
  have "flattenRegionsConfig (fst (expandRegionsConfig (regions_config spec))) = regions_config spec"
    using Cons.prems by (intro regions_round_trip) simp
  then have flat: "flattenRegionsConfig rc = regions_config spec"
    using rc by simp
  show ?case
    using Cons.IH [of "acc @ [\<lparr>RS_ID = spec_id spec, RS_NumShards = Some (spec_num_shards spec),
        ZoneName = zone_name spec, RS_RegionsConfig = rc\<rparr>]"] Cons.prems rc flat
    by (simp add: flattenReplicationSpecs_def deref_int_def)
qed

lemma replication_specs_round_trip:
  assumes "\<forall>spec \<in> set (replication_specs (attrs d)). distinct (map region_name (regions_config spec))"
  shows "flattenReplicationSpecs (Some (fst (expandReplicationSpecs d))) = replication_specs (attrs d)"
proof (cases "GetOk_replication_specs d")
  case True
  then show ?thesis
    using expandReplicationSpecs_loop_flatten [of "replication_specs (attrs d)" "[]"] assms
    by (simp add: expandReplicationSpecs_def flattenReplicationSpecs_def)
next
  case False
  then show ?thesis
    by (simp add: expandReplicationSpecs_def flattenReplicationSpecs_def GetOk_replication_specs_def)
qed

text \<open>What the round trip writes: the computed attributes come back empty, since the
  request does not carry them, and so does \<^verbatim>\<open>mongo_db_major_version\<close>, which read takes
  from the cluster's \<^verbatim>\<open>MongoDBVersion\<close>.\<close>

lemma roundTrip_attrs:
  "attrs (roundTrip d) =
     (attrs d)
       \<lparr>cluster_id := [],
        mongo_db_major_version := [],
        mongo_db_version := [], mongo_uri := [], mongo_uri_updated := [],
        mongo_uri_with_options := [], paused := False, srv_address := [], state_name := [],
        bi_connector := flattenBiConnector (fst (expandBiConnector d)),
        replication_specs := flattenReplicationSpecs (Some (fst (expandReplicationSpecs d)))\<rparr>"
  by (simp add: roundTrip_def setClusterAttrs_def clusterRequest_def flattenProviderSettings_def
      expandProviderSetting_def zeroCluster_def Let_def deref_bool_def deref_int_def deref_real_def
      GetOk_num_shards_def GetOk_replication_factor_def)

lemma bi_connector_round_trip:
  "flattenBiConnector (fst (expandBiConnector d)) =
     (if bi_connector (attrs d) = Map.empty then Map.empty
      else if ToString (bi_connector (attrs d) ''read_preference'') = []
           then [''enabled'' \<mapsto> FormatBool (ToBool (bi_connector (attrs d) ''enabled''))]
           else [''enabled'' \<mapsto> FormatBool (ToBool (bi_connector (attrs d) ''enabled'')),
                 ''read_preference'' \<mapsto> ToString (bi_connector (attrs d) ''read_preference'')])"
  by (simp add: flattenBiConnector_def expandBiConnector_def GetOk_bi_connector_def
      zeroBiConnector_def Let_def)

text \<open>
  Claim C3, as amended. The round trip reproduces exactly the project, the name, the
  cluster type, the disk size, the encryption provider, the auto-scaling and the two
  backup flags, the number of shards, the replication factor and the eight provider
  settings. The BI connector comes back normalised: an unset connector stays unset, a
  set one comes back with \<open>enabled\<close> as \<open>true\<close> or \<open>false\<close> (whatever text said so, and
  \<open>false\<close> when it was missing) and with its read preference unless that is empty. The
  replication specs come back zone by zone, each with its id, number of shards, zone
  name and the same regions up to their order, when no zone names a region twice.
  The statement is silent on \<^verbatim>\<open>mongo_db_major_version\<close>.
\<close>

theorem round_trip_reproduces_scalars:
  "project_id (attrs (roundTrip d)) = project_id (attrs d) \<and>
   name (attrs (roundTrip d)) = name (attrs d) \<and>
   cluster_type (attrs (roundTrip d)) = cluster_type (attrs d) \<and>
   disk_size_gb (attrs (roundTrip d)) = disk_size_gb (attrs d) \<and>
   encryption_at_rest_provider (attrs (roundTrip d)) = encryption_at_rest_provider (attrs d) \<and>
   auto_scaling_disk_gb_enabled (attrs (roundTrip d)) = auto_scaling_disk_gb_enabled (attrs d) \<and>
   backup_enabled (attrs (roundTrip d)) = backup_enabled (attrs d) \<and>
   provider_backup_enabled (attrs (roundTrip d)) = provider_backup_enabled (attrs d) \<and>
   num_shards (attrs (roundTrip d)) = num_shards (attrs d) \<and>
   replication_factor (attrs (roundTrip d)) = replication_factor (attrs d) \<and>
   provider_name (attrs (roundTrip d)) = provider_name (attrs d) \<and>
   provider_instance_size_name (attrs (roundTrip d)) = provider_instance_size_name (attrs d) \<and>
   provider_region_name (attrs (roundTrip d)) = provider_region_name (attrs d) \<and>
   backing_provider_name (attrs (roundTrip d)) = backing_provider_name (attrs d) \<and>
   provider_disk_iops (attrs (roundTrip d)) = provider_disk_iops (attrs d) \<and>
   provider_disk_type_name (attrs (roundTrip d)) = provider_disk_type_name (attrs d) \<and>
   provider_encrypt_ebs_volume (attrs (roundTrip d)) = provider_encrypt_ebs_volume (attrs d) \<and>
   provider_volume_type (attrs (roundTrip d)) = provider_volume_type (attrs d) \<and>
   bi_connector (attrs (roundTrip d)) =
     (if bi_connector (attrs d) = Map.empty then Map.empty
      else if ToString (bi_connector (attrs d) ''read_preference'') = []
           then [''enabled'' \<mapsto> FormatBool (ToBool (bi_connector (attrs d) ''enabled''))]
           else [''enabled'' \<mapsto> FormatBool (ToBool (bi_connector (attrs d) ''enabled'')),
                 ''read_preference'' \<mapsto> ToString (bi_connector (attrs d) ''read_preference'')]) \<and>
   ((\<forall>spec \<in> set (replication_specs (attrs d)). distinct (map region_name (regions_config spec))) \<longrightarrow>
      map (\<lambda>s. (spec_id s, spec_num_shards s, zone_name s, mset (regions_config s)))
          (replication_specs (attrs (roundTrip d))) =
      map (\<lambda>s. (spec_id s, spec_num_shards s, zone_name s, mset (regions_config s)))
          (replication_specs (attrs d)))"
  by (simp add: roundTrip_attrs bi_connector_round_trip replication_specs_round_trip)

text \<open>
  Claim C3 as stated fails: a configuration that switches the BI connector on with the
  text \<open>1\<close> comes back from the round trip with the text \<open>true\<close>, a loss that is not one
  of replication order.
\<close>

theorem round_trip_counterexample:
  "bi_connector (attrs biConnectorResource) ''enabled'' = Some ''1'' \<and>
   bi_connector (attrs (roundTrip biConnectorResource)) ''enabled'' = Some ''true'' \<and>
   bi_connector (attrs (roundTrip biConnectorResource)) \<noteq> bi_connector (attrs biConnectorResource)"
proof -
  have before: "bi_connector (attrs biConnectorResource) ''enabled'' = Some ''1''"
    by (simp add: biConnectorResource_def)
  have after: "bi_connector (attrs (roundTrip biConnectorResource)) ''enabled'' = Some ''true''"
    by (simp add: roundTrip_attrs bi_connector_round_trip biConnectorResource_def ToBool_def
        ToString_def FormatBool_def exampleAttrs_def zeroAttrs_def)
  from before after
  have "bi_connector (attrs (roundTrip biConnectorResource)) ''enabled'' \<noteq>
        bi_connector (attrs biConnectorResource) ''enabled''"
    by simp
  then have "bi_connector (attrs (roundTrip biConnectorResource)) \<noteq>
             bi_connector (attrs biConnectorResource)"
    by metis
  with before after show ?thesis by simp
qed

text \<open>The amended statement at a configuration with one zone of one region.\<close>

theorem round_trip_reproduces_scalars_witness:
  "disk_size_gb (attrs (roundTrip
      (newResource\<lparr>attrs := exampleAttrs\<lparr>replication_specs := [exampleSpec]\<rparr>\<rparr>))) = 100 \<and>
   num_shards (attrs (roundTrip
      (newResource\<lparr>attrs := exampleAttrs\<lparr>replication_specs := [exampleSpec]\<rparr>\<rparr>))) = 1 \<and>
   bi_connector (attrs (roundTrip
      (newResource\<lparr>attrs := exampleAttrs\<lparr>replication_specs := [exampleSpec]\<rparr>\<rparr>))) = Map.empty \<and>
   map (\<lambda>s. (spec_id s, spec_num_shards s, zone_name s, mset (regions_config s)))
     (replication_specs (attrs (roundTrip
        (newResource\<lparr>attrs := exampleAttrs\<lparr>replication_specs := [exampleSpec]\<rparr>\<rparr>)))) =
     [([], 1, ''Zone 1'', mset (regions_config exampleSpec))]"
  using round_trip_reproduces_scalars
    [of "newResource\<lparr>attrs := exampleAttrs\<lparr>replication_specs := [exampleSpec]\<rparr>\<rparr>"]
  by (simp add: exampleAttrs_def zeroAttrs_def exampleSpec_def)

subsection \<open>What the error messages name\<close>

text \<open>The messages the four formats produce, and what they contain.\<close>

lemma Contains_appendI1: "Contains a x \<Longrightarrow> Contains (a @ b) x"
  by (auto simp add: Contains_def sublist_append)

lemma Contains_appendI2: "Contains b x \<Longrightarrow> Contains (a @ b) x"
  by (auto simp add: Contains_def sublist_append)

lemma Contains_self: "Contains x x"
  by (simp add: Contains_def)

lemma Sprintf_errorCreate: "Sprintf errorCreate [cause] = ''error creating MongoDB Cluster: '' @ cause"
  by (simp add: errorCreate_def)

lemma Sprintf_errorRead:
  "Sprintf errorRead [n, cause] = ''error reading MongoDB Cluster ('' @ n @ ''): '' @ cause"
  by (simp add: errorRead_def)

lemma Sprintf_errorDelete:
  "Sprintf errorDelete [n, cause] = ''error deleting MongoDB Cluster ('' @ n @ ''): '' @ cause"
  by (simp add: errorDelete_def)

lemma Sprintf_errorUpdate:
  "Sprintf errorUpdate [n, cause] = ''error updating MongoDB Cluster ('' @ n @ ''): '' @ cause"
  by (simp add: errorUpdate_def)

lemma names_errorCreate:
  "Contains (Sprintf errorCreate [cause]) ''creating'' \<and> Contains (Sprintf errorCreate [cause]) cause"
proof -
  have "Contains ''error creating MongoDB Cluster: '' ''creating''"
    by (simp add: Contains_def sublist_Cons_right)
  then show ?thesis
    unfolding Sprintf_errorCreate
    by (intro conjI Contains_appendI1 Contains_appendI2 Contains_self)
qed

lemma names_errorRead: "names (Sprintf errorRead [n, cause]) ''reading'' n cause"
proof -
  have "Contains ''error reading MongoDB Cluster ('' ''reading''"
    by (simp add: Contains_def sublist_Cons_right)
  then show ?thesis
    unfolding Sprintf_errorRead names_def
    by (intro conjI Contains_appendI1 Contains_appendI2 Contains_self)
qed

lemma names_errorDelete: "names (Sprintf errorDelete [n, cause]) ''deleting'' n cause"
proof -
  have "Contains ''error deleting MongoDB Cluster ('' ''deleting''"
    by (simp add: Contains_def sublist_Cons_right)
  then show ?thesis
    unfolding Sprintf_errorDelete names_def
    by (intro conjI Contains_appendI1 Contains_appendI2 Contains_self)
qed

lemma names_errorUpdate: "names (Sprintf errorUpdate [n, cause]) ''updating'' n cause"
proof -
  have "Contains ''error updating MongoDB Cluster ('' ''updating''"
    by (simp add: Contains_def sublist_Cons_right)
  then show ?thesis
    unfolding Sprintf_errorUpdate names_def
    by (intro conjI Contains_appendI1 Contains_appendI2 Contains_self)
qed

lemma read_failure:
  assumes "resourceMongoDBAtlasClusterRead env d conn = (Failed msg, d', conn')"
  shows "\<exists>cause. snd (snd (get_replies conn (gets conn))) = Some cause \<and>
                 msg = Sprintf errorRead [clusterNameOf env d, cause]"
  using assms
  by (auto simp add: resourceMongoDBAtlasClusterRead_def Let_def Clusters_Get_def clusterNameOf_def
      split: prod.splits option.splits if_splits)

lemma delete_failure:
  assumes "resourceMongoDBAtlasClusterDelete env d conn = (Failed msg, d', conn')"
  shows "\<exists>cause. (delete_reply conn = Some cause \<or>
                  (\<exists>w. fst (WaitForState env
                              (deleteStateConf (clusterNameOf env d) (projectOf env d))
                              (snd (Clusters_Delete (projectOf env d) (clusterNameOf env d) conn)))
                         = WaitFailed w \<and> cause = ErrorText env w)) \<and>
                 msg = Sprintf errorDelete [clusterNameOf env d, cause]"
  using assms
  by (auto simp add: resourceMongoDBAtlasClusterDelete_def Let_def clusterNameOf_def projectOf_def
      Clusters_Delete_def split: prod.splits option.splits wait_result.splits)

lemma updateSubmit_failure:
  assumes "update_reply conn = Some cause"
  shows "fst (updateSubmit env d p n cluster conn) = Failed (Sprintf errorUpdate [n, cause])"
  using assms by (simp add: updateSubmit_def Clusters_Update_def)

lemma update_failure:
  assumes "update_reply conn = Some cause"
  shows "fst (resourceMongoDBAtlasClusterUpdate env d conn) =
           Failed (Sprintf errorUpdate [clusterNameOf env d, cause])"
proof -
  obtain rs where rs: "expandReplicationSpecs d = (rs, None)"
    using expandReplicationSpecs_no_error [of d] by (cases "expandReplicationSpecs d") simp
  show ?thesis
    using rs assms
    by (simp add: resourceMongoDBAtlasClusterUpdate_def Let_def updateSubmit_failure
        clusterNameOf_def)
qed

lemma create_failure:
  assumes "resourceMongoDBAtlasClusterCreate env d conn = (Failed msg, d', conn')"
  shows "msg = ''`cluster_type` should be set when `replication_specs` is set'' \<or>
         msg = ''`num_shards` should be set when `replication_specs` is set'' \<or>
         (\<exists>cause. (create_reply conn = Inl cause \<or>
                   (\<exists>w. fst (WaitForState env (createStateConf d (project_id (attrs d)))
                               (snd (Clusters_Create (project_id (attrs d))
                                  (clusterRequest d (fst (expandBiConnector d))
                                     (expandProviderSetting d) (fst (expandReplicationSpecs d)))
                                  conn))) = WaitFailed w \<and> cause = ErrorText env w)) \<and>
                  msg = Sprintf errorCreate [cause]) \<or>
         (\<exists>d1 conn2. resourceMongoDBAtlasClusterRead env d1 conn2 = (Failed msg, d', conn'))"
proof -
  obtain b where b: "expandBiConnector d = (b, None)"
    using expandBiConnector_no_error [of d] by (cases "expandBiConnector d") simp
  obtain rs where rs: "expandReplicationSpecs d = (rs, None)"
    using expandReplicationSpecs_no_error [of d] by (cases "expandReplicationSpecs d") simp
  let ?p = "project_id (attrs d)"
  let ?conn1 = "conn\<lparr>calls := calls conn @
                  [CreateCall ?p (clusterRequest d b (expandProviderSetting d) rs)]\<rparr>"
  obtain w conn2 where wait: "WaitForState env (createStateConf d ?p) ?conn1 = (w, conn2)"
    by (cases "WaitForState env (createStateConf d ?p) ?conn1")
  show ?thesis
    using assms b rs wait
    by (cases "create_reply conn"; cases w)
      (auto simp add: resourceMongoDBAtlasClusterCreate_def Let_def Clusters_Create_def
        split: if_splits)
qed

text \<open>
  Claim C7, as amended. An error returned by read names the operation (\<open>reading\<close>), the
  cluster name and the error of the \<^verbatim>\<open>Get\<close> call; an error returned by delete names
  \<open>deleting\<close>, the cluster name and the error of the \<^verbatim>\<open>Delete\<close> call or of the wait;
  when the \<^verbatim>\<open>Update\<close> call fails, update returns an error that names \<open>updating\<close>, the
  cluster name and the error of the call. An error returned by create is one of the
  two validation messages, or \<open>error creating MongoDB Cluster:\<close> followed by the error
  of the \<^verbatim>\<open>Create\<close> call or of the wait, which names the operation and the cause but
  no cluster, or else the error of the read that ends create. The statement is silent
  on the error update returns when its wait fails.
\<close>

theorem errors_name_operation_cluster_and_cause:
  "(resourceMongoDBAtlasClusterRead env d conn = (Failed msg, d', conn') \<longrightarrow>
      (\<exists>cause. snd (snd (get_replies conn (gets conn))) = Some cause \<and>
               names msg ''reading'' (clusterNameOf env d) cause)) \<and>
   (resourceMongoDBAtlasClusterDelete env d conn = (Failed msg, d', conn') \<longrightarrow>
      (\<exists>cause. (delete_reply conn = Some cause \<or>
                (\<exists>w. fst (WaitForState env
                            (deleteStateConf (clusterNameOf env d) (projectOf env d))
                            (snd (Clusters_Delete (projectOf env d) (clusterNameOf env d) conn)))
                       = WaitFailed w \<and> cause = ErrorText env w)) \<and>
               names msg ''deleting'' (clusterNameOf env d) cause)) \<and>
   (update_reply conn = Some cause' \<longrightarrow>
      (\<exists>m. fst (resourceMongoDBAtlasClusterUpdate env d conn) = Failed m \<and>
           names m ''updating'' (clusterNameOf env d) cause')) \<and>
   (resourceMongoDBAtlasClusterCreate env d conn = (Failed msg, d', conn') \<longrightarrow>
      msg = ''`cluster_type` should be set when `replication_specs` is set'' \<or>
      msg = ''`num_shards` should be set when `replication_specs` is set'' \<or>
      (\<exists>cause. (create_reply conn = Inl cause \<or>
                (\<exists>w. fst (WaitForState env (createStateConf d (project_id (attrs d)))
                            (snd (Clusters_Create (project_id (attrs d))
                               (clusterRequest d (fst (expandBiConnector d))
                                  (expandProviderSetting d) (fst (expandReplicationSpecs d)))
                               conn))) = WaitFailed w \<and> cause = ErrorText env w)) \<and>
               msg = ''error creating MongoDB Cluster: '' @ cause \<and>
               Contains msg ''creating'' \<and> Contains msg cause) \<or>
      (\<exists>d1 conn2. resourceMongoDBAtlasClusterRead env d1 conn2 = (Failed msg, d', conn')))"
proof (intro conjI impI)
  assume "resourceMongoDBAtlasClusterRead env d conn = (Failed msg, d', conn')"
  then show "\<exists>cause. snd (snd (get_replies conn (gets conn))) = Some cause \<and>
               names msg ''reading'' (clusterNameOf env d) cause"
    using read_failure names_errorRead by blast
next
  assume "resourceMongoDBAtlasClusterDelete env d conn = (Failed msg, d', conn')"
  from delete_failure [OF this] obtain cause where
    cause: "delete_reply conn = Some cause \<or>
       (\<exists>w. fst (WaitForState env (deleteStateConf (clusterNameOf env d) (projectOf env d))
                   (snd (Clusters_Delete (projectOf env d) (clusterNameOf env d) conn)))
              = WaitFailed w \<and> cause = ErrorText env w)"
    and msg: "msg = Sprintf errorDelete [clusterNameOf env d, cause]"
    by blast
  have "names msg ''deleting'' (clusterNameOf env d) cause"
    unfolding msg by (rule names_errorDelete)
  with cause show "\<exists>cause. (delete_reply conn = Some cause \<or>
                (\<exists>w. fst (WaitForState env
                            (deleteStateConf (clusterNameOf env d) (projectOf env d))
                            (snd (Clusters_Delete (projectOf env d) (clusterNameOf env d) conn)))
                       = WaitFailed w \<and> cause = ErrorText env w)) \<and>
               names msg ''deleting'' (clusterNameOf env d) cause"
    by blast
next
  assume "update_reply conn = Some cause'"
  then have "fst (resourceMongoDBAtlasClusterUpdate env d conn) =
      Failed (Sprintf errorUpdate [clusterNameOf env d, cause'])"
    by (rule update_failure)
  then show "\<exists>m. fst (resourceMongoDBAtlasClusterUpdate env d conn) = Failed m \<and>
           names m ''updating'' (clusterNameOf env d) cause'"
    using names_errorUpdate by blast
next
  assume "resourceMongoDBAtlasClusterCreate env d conn = (Failed msg, d', conn')"
  from create_failure [OF this]
  show "msg = ''`cluster_type` should be set when `replication_specs` is set'' \<or>
      msg = ''`num_shards` should be set when `replication_specs` is set'' \<or>
      (\<exists>cause. (create_reply conn = Inl cause \<or>
                (\<exists>w. fst (WaitForState env (createStateConf d (project_id (attrs d)))
                            (snd (Clusters_Create (project_id (attrs d))
                               (clusterRequest d (fst (expandBiConnector d))
                                  (expandProviderSetting d) (fst (expandReplicationSpecs d)))
                               conn))) = WaitFailed w \<and> cause = ErrorText env w)) \<and>
               msg = ''error creating MongoDB Cluster: '' @ cause \<and>
               Contains msg ''creating'' \<and> Contains msg cause) \<or>
      (\<exists>d1 conn2. resourceMongoDBAtlasClusterRead env d1 conn2 = (Failed msg, d', conn'))"
    using names_errorCreate Sprintf_errorCreate by metis
qed

text \<open>
  Claim C7 as stated fails: when the service rejects the \<^verbatim>\<open>Create\<close> call for the
  cluster \<open>my-cluster\<close>, the error create returns does not contain the cluster's name.
\<close>

theorem create_error_omits_cluster_name:
  "fst (resourceMongoDBAtlasClusterCreate exampleEnv newResource rejectingClient) =
     Failed ''error creating MongoDB Cluster: 400 Bad Request'' \<and>
   name (attrs newResource) = ''my-cluster'' \<and>
   \<not> Contains ''error creating MongoDB Cluster: 400 Bad Request'' ''my-cluster'' \<and>
   \<not> names ''error creating MongoDB Cluster: 400 Bad Request'' ''creating'' ''my-cluster''
       ''400 Bad Request''"
proof -
  have absent: "\<not> Contains ''error creating MongoDB Cluster: 400 Bad Request'' ''my-cluster''"
    by (simp add: Contains_def sublist_Cons_right)
  have "fst (resourceMongoDBAtlasClusterCreate exampleEnv newResource rejectingClient) =
     Failed ''error creating MongoDB Cluster: 400 Bad Request''"
    by (simp add: resourceMongoDBAtlasClusterCreate_def Let_def rejectingClient_def
        exampleClient_def Clusters_Create_def newResource_def exampleAttrs_def zeroAttrs_def
        GetOk_replication_specs_def expandBiConnector_def GetOk_bi_connector_def
        expandReplicationSpecs_def Sprintf_errorCreate)
  moreover have "name (attrs newResource) = ''my-cluster''"
    by (simp add: newResource_def exampleAttrs_def)
  ultimately show ?thesis
    using absent by (simp add: names_def)
qed

text \<open>The amended statement at an update whose \<^verbatim>\<open>Update\<close> call the service rejects.\<close>

theorem errors_name_operation_cluster_and_cause_witness:
  "fst (resourceMongoDBAtlasClusterUpdate exampleEnv existingResource rejectingClient) =
     Failed ''error updating MongoDB Cluster (my-cluster): 400 Bad Request'' \<and>
   names ''error updating MongoDB Cluster (my-cluster): 400 Bad Request'' ''updating''
     ''my-cluster'' ''400 Bad Request''"
proof -
  have cluster: "clusterNameOf exampleEnv existingResource = ''my-cluster''"
    by (simp add: clusterNameOf_def exampleEnv_def existingResource_def index_map_def)
  have reply: "update_reply rejectingClient = Some ''400 Bad Request''"
    by (simp add: rejectingClient_def exampleClient_def)
  have failed: "fst (resourceMongoDBAtlasClusterUpdate exampleEnv existingResource rejectingClient) =
     Failed ''error updating MongoDB Cluster (my-cluster): 400 Bad Request''"
    using update_failure [OF reply, of exampleEnv existingResource]
    by (simp add: cluster Sprintf_errorUpdate)
  show ?thesis
    using errors_name_operation_cluster_and_cause
      [of exampleEnv existingResource rejectingClient _ _ _ "''400 Bad Request''"]
      reply failed cluster
    by auto
qed

end
